theory Spec2Isabelle
  imports Complex_Main
begin

section \<open>Errors\<close>

text \<open>
  The exceptions the converter can raise, as values. A computation without effect on the
  log returns \<open>py_error + 'a\<close> (\<open>Inl\<close> the exception); a computation that writes to a
  log returns the exception it ended with (if any) together with the state it left behind,
  since messages written before an exception stay written.
\<close>

datatype py_error = ValueError | KeyError | IndexError | AssertionError
  | InvalidArgumentError | CvError | TypeError | AttributeError

definition bindE :: "py_error + 'a \<Rightarrow> ('a \<Rightarrow> py_error + 'b) \<Rightarrow> py_error + 'b" where
  "bindE m f = (case m of Inl e \<Rightarrow> Inl e | Inr x \<Rightarrow> f x)"

fun foldE :: "('a \<Rightarrow> 's \<Rightarrow> py_error + 's) \<Rightarrow> 'a list \<Rightarrow> 's \<Rightarrow> py_error + 's" where
  "foldE f [] s = Inr s"
| "foldE f (x # xs) s = bindE (f x s) (foldE f xs)"

type_synonym 's action = "'s \<Rightarrow> py_error option \<times> 's"

definition seq :: "'s action \<Rightarrow> 's action \<Rightarrow> 's action" where
  "seq f g s = (case f s of (None, s') \<Rightarrow> g s' | (Some e, s') \<Rightarrow> (Some e, s'))"

fun for_each :: "('a \<Rightarrow> 's action) \<Rightarrow> 'a list \<Rightarrow> 's action" where
  "for_each f [] s = (None, s)"
| "for_each f (x # xs) s = seq (f x) (for_each f xs) s"

section \<open>Data model\<close>

text \<open>
  Floating-point values are modelled by the real numbers they denote; the comparisons the
  converter makes on them (\<open>> 0\<close>, \<open>!= 1.0\<close>, \<open>==\<close>) are exact on floats. Numeric
  library routines whose result depends on rounding are parameters (see \<open>externals\<close>).
\<close>

type_synonym mat = "real list list"
type_synonym point = "real \<times> real \<times> real"
type_synonym pose6 = "real \<times> real \<times> real \<times> real \<times> real \<times> real"

text \<open>\<open>dataset_pb2.LaserName\<close> and \<open>dataset_pb2.CameraName\<close>, with their numbers.\<close>

datatype laser_name = L_UNKNOWN | L_TOP | L_FRONT | L_SIDE_LEFT | L_SIDE_RIGHT | L_REAR

fun laser_id :: "laser_name \<Rightarrow> nat" where
  "laser_id L_UNKNOWN = 0"
| "laser_id L_TOP = 1"
| "laser_id L_FRONT = 2"
| "laser_id L_SIDE_LEFT = 3"
| "laser_id L_SIDE_RIGHT = 4"
| "laser_id L_REAR = 5"

datatype camera_name = C_UNKNOWN | C_FRONT | C_FRONT_LEFT | C_FRONT_RIGHT
  | C_SIDE_LEFT | C_SIDE_RIGHT

text \<open>\<open>dataset_pb2.CameraName.Name.Name(n).lower()\<close>\<close>

fun camera_frame_name :: "camera_name \<Rightarrow> string" where
  "camera_frame_name C_UNKNOWN = ''unknown''"
| "camera_frame_name C_FRONT = ''front''"
| "camera_frame_name C_FRONT_LEFT = ''front_left''"
| "camera_frame_name C_FRONT_RIGHT = ''front_right''"
| "camera_frame_name C_SIDE_LEFT = ''side_left''"
| "camera_frame_name C_SIDE_RIGHT = ''side_right''"

text \<open>
  One pixel of a range image tensor of shape [H, W, 4]: channel 0 is the range, channel 1
  the intensity, channel 2 the elongation, channel 3 the no-label-zone flag. A range image
  is the list of its rows, as \<open>tf.reshape(range_image.data, range_image.shape.dims)\<close>
  gives it; its height \<open>range_image.shape.dims[0]\<close> is the number of rows.
\<close>

record pixel =
  ch_range :: real
  ch_intensity :: real
  ch_elongation :: real
  ch_nlz :: real

type_synonym range_image = "pixel list list"

record laser_calibration =
  lc_name :: laser_name
  beam_inclinations :: "real list"
  beam_inclination_min :: real
  beam_inclination_max :: real
  lc_extrinsic :: "real list"

record camera_calibration =
  cc_name :: camera_name
  cc_extrinsic :: "real list"
  cc_intrinsic :: "real list"
  cc_width :: nat
  cc_height :: nat

record camera_image =
  im_name :: camera_name
  im_image :: "nat list"

text \<open>
  A decoded frame. \<open>range_images\<close> and \<open>range_image_top_pose\<close> are what
  \<open>frame_utils.parse_range_image_and_camera_projection(frame)\<close> returns for it: the dict
  from laser name to the list of its range images (first return, second return) and the
  per-pixel pose grid of the top laser, of shape [H, W, 6], which is \<open>None\<close> when the
  frame holds no range image of the top laser.
\<close>

record frame =
  timestamp_micros :: int
  pose_transform :: "real list"
  laser_calibrations :: "laser_calibration list"
  camera_calibrations :: "camera_calibration list"
  images :: "camera_image list"
  range_images :: "laser_name \<Rightarrow> range_image list option"
  range_image_top_pose :: "pose6 list list option"

text \<open>
  The arguments of one call of \<open>range_image_utils.extract_point_cloud_from_range_image\<close>
  (the batch dimension of size one that \<open>tf.expand_dims\<close> adds is left out).
\<close>

record extract_call =
  ec_range_image :: "real list list"
  ec_extrinsic :: mat
  ec_inclination :: "real list"
  ec_pixel_pose :: "mat list list option"
  ec_frame_pose :: "mat option"

text \<open>
  The library routines the converter calls, as parameters.
  \<open>extract_point_cloud_from_range_image ext call\<close> is the exception the routine raises
  on the call, or the [H, W, 3] tensor it returns for a range image of shape [H, W], given
  by its entry at row \<open>i\<close> and column \<open>j\<close>.
  \<open>imdecode_rgb\<close> stands for \<open>cv2.imdecode\<close> followed by \<open>cv2.cvtColor\<close> and
  \<open>tostring\<close>: height, width and bytes, or \<open>None\<close> where the buffer does not decode.
\<close>

record externals =
  compute_inclination :: "real \<Rightarrow> real \<Rightarrow> nat \<Rightarrow> real list"
  get_rotation_matrix :: "real \<Rightarrow> real \<Rightarrow> real \<Rightarrow> mat"
  get_transform :: "mat \<Rightarrow> point \<Rightarrow> mat"
  extract_point_cloud_from_range_image :: "extract_call \<Rightarrow> py_error + (nat \<Rightarrow> nat \<Rightarrow> point)"
  translation_from_matrix :: "mat \<Rightarrow> real \<times> real \<times> real"
  quaternion_from_matrix :: "mat \<Rightarrow> real \<times> real \<times> real \<times> real"
  np_tanh :: "real \<Rightarrow> real"
  imdecode_rgb :: "nat list \<Rightarrow> (nat \<times> nat \<times> nat list) option"
  time_from_sec :: "int \<Rightarrow> int"

text \<open>The module's configuration constants, and the values the source gives them.\<close>

record config =
  FILTER_NO_LABEL_ZONE_POINTS :: bool
  SELECTED_LIDAR_SENSOR :: "(laser_name \<times> string) list"
  NORMALIZE_INTENSITY :: bool

definition default_config :: config where
  "default_config = \<lparr> FILTER_NO_LABEL_ZONE_POINTS = False,
     SELECTED_LIDAR_SENSOR = [(L_TOP, ''top'')], NORMALIZE_INTENSITY = True \<rparr>"

section \<open>Array primitives\<close>

text \<open>\<open>np.reshape(np.array(xs), [4, 4])\<close>: fails unless there are 16 entries.\<close>

definition reshape_4_4 :: "real list \<Rightarrow> py_error + mat" where
  "reshape_4_4 xs =
     (if length xs = 16
      then Inr [take 4 xs, take 4 (drop 4 xs), take 4 (drop 8 xs), take 4 (drop 12 xs)]
      else Inl ValueError)"

text \<open>Elementwise \<open>&\<close> of two boolean tensors of rank two.\<close>

definition tensor_and :: "bool list list \<Rightarrow> bool list list \<Rightarrow> bool list list" where
  "tensor_and a b = map2 (map2 (\<and>)) a b"

text \<open>\<open>tf.where(mask)\<close>: the indices of the true entries, in row-major order.\<close>

definition tf_where :: "bool list list \<Rightarrow> (nat \<times> nat) list" where
  "tf_where m =
     concat (map (\<lambda>i. map (\<lambda>j. (i, j)) (filter (\<lambda>j. m ! i ! j) [0..<length (m ! i)]))
                 [0..<length m])"

text \<open>\<open>tf.gather_nd(params, indices)\<close>: an index out of range is an error.\<close>

definition gather_nd :: "'a list list \<Rightarrow> (nat \<times> nat) list \<Rightarrow> py_error + 'a list" where
  "gather_nd params indices =
     (if list_all (\<lambda>(i, j). i < length params \<and> j < length (params ! i)) indices
      then Inr (map (\<lambda>(i, j). params ! i ! j) indices)
      else Inl InvalidArgumentError)"

section \<open>convert_range_image_to_point_cloud\<close>

text \<open>
  The result dict, a \<open>defaultdict(list)\<close>: the keys \<open>"points_{name}_{ri}"\<close> and
  \<open>"intensity_{name}_{ri}"\<close> are the pairs (laser, return index) under the two
  prefixes, and a key never written reads as the empty list.
\<close>

record ret_dict =
  points_of :: "laser_name \<times> nat \<Rightarrow> point list list"
  intensity_of :: "laser_name \<times> nat \<Rightarrow> real list list"

definition empty_ret :: ret_dict where
  "empty_ret = \<lparr> points_of = (\<lambda>_. []), intensity_of = (\<lambda>_. []) \<rparr>"

text \<open>The per-pixel pose grid [H, W, 6] as transforms [H, W, 4, 4] (source lines 325-337).\<close>

definition top_pose_tensor :: "externals \<Rightarrow> pose6 list list \<Rightarrow> mat list list" where
  "top_pose_tensor ext g =
     map (map (\<lambda>(roll, pitch, yaw, tx, ty, tz).
            get_transform ext (get_rotation_matrix ext roll pitch yaw) (tx, ty, tz))) g"

text \<open>Inclination resolution and reversal (source lines 342-350).\<close>

definition resolved_inclinations :: "externals \<Rightarrow> laser_calibration \<Rightarrow> range_image \<Rightarrow> real list" where
  "resolved_inclinations ext c t =
     rev (if length (beam_inclinations c) = 0
          then compute_inclination ext (beam_inclination_min c) (beam_inclination_max c)
                 (length t)
          else beam_inclinations c)"

text \<open>The mask (source lines 362-367).\<close>

definition range_image_mask :: "bool \<Rightarrow> range_image \<Rightarrow> bool list list" where
  "range_image_mask flt t =
     (let m = map (map (\<lambda>p. ch_range p > 0)) t
      in if flt then tensor_and m (map (map (\<lambda>p. ch_nlz p \<noteq> 1)) t) else m)"

text \<open>The call of the geometry routine (source lines 356-361 and 369-375).\<close>

definition extract_args ::
  "externals \<Rightarrow> mat \<Rightarrow> mat list list \<Rightarrow> laser_calibration \<Rightarrow> mat \<Rightarrow> range_image \<Rightarrow> extract_call" where
  "extract_args ext frame_pose top_pose c extr t =
     \<lparr> ec_range_image = map (map ch_range) t,
       ec_extrinsic = extr,
       ec_inclination = resolved_inclinations ext c t,
       ec_pixel_pose = (if lc_name c = L_TOP then Some top_pose else None),
       ec_frame_pose = (if lc_name c = L_TOP then Some frame_pose else None) \<rparr>"

text \<open>
  The routine needs one inclination for every row of the range image and, when it is
  given a per-pixel pose grid, a grid of the shape of the range image: it raises
  \<open>InvalidArgumentError\<close> on tensors whose shapes do not agree.
\<close>

definition shapes_agree :: "extract_call \<Rightarrow> bool" where
  "shapes_agree call \<longleftrightarrow>
     length (ec_inclination call) = length (ec_range_image call)
     \<and> (case ec_pixel_pose call of
          None \<Rightarrow> True
        | Some grid \<Rightarrow> map length grid = map length (ec_range_image call))"

definition range_image_cartesian :: "externals \<Rightarrow> extract_call \<Rightarrow> py_error + point list list" where
  "range_image_cartesian ext call =
     (if \<not> shapes_agree call then Inl InvalidArgumentError
      else bindE (extract_point_cloud_from_range_image ext call) (\<lambda>cartesian.
             Inr (map (\<lambda>i. map (\<lambda>j. cartesian i j) [0..<length (ec_range_image call ! i)])
                      [0..<length (ec_range_image call)])))"

text \<open>
  The body of the loop for one calibration and one range image, from the extrinsic to the
  two gathered arrays (source lines 351-387).
\<close>

definition point_cloud_of_return ::
  "externals \<Rightarrow> bool \<Rightarrow> mat \<Rightarrow> mat list list \<Rightarrow> laser_calibration \<Rightarrow> range_image
     \<Rightarrow> py_error + (point list \<times> real list)" where
  "point_cloud_of_return ext flt frame_pose top_pose c t =
     bindE (reshape_4_4 (lc_extrinsic c)) (\<lambda>extr.
       let mask = range_image_mask flt t
       in bindE (range_image_cartesian ext (extract_args ext frame_pose top_pose c extr t))
            (\<lambda>cart.
          bindE (gather_nd cart (tf_where mask)) (\<lambda>points_tensor.
          bindE (gather_nd (map (map ch_intensity) t) (tf_where mask)) (\<lambda>intensity_tensor.
            Inr (points_tensor, intensity_tensor)))))"

text \<open>\<open>range_images[c.name][ri_index]\<close>\<close>

definition lookup_range_image :: "frame \<Rightarrow> laser_name \<Rightarrow> nat \<Rightarrow> py_error + range_image" where
  "lookup_range_image fr n ri_index =
     (case range_images fr n of
        None \<Rightarrow> Inl KeyError
      | Some ris \<Rightarrow> if ri_index < length ris then Inr (ris ! ri_index) else Inl IndexError)"

definition ret_append :: "laser_name \<times> nat \<Rightarrow> point list \<Rightarrow> real list \<Rightarrow> ret_dict \<Rightarrow> ret_dict" where
  "ret_append k pts ins ret =
     \<lparr> points_of = (points_of ret)(k := points_of ret k @ [pts]),
       intensity_of = (intensity_of ret)(k := intensity_of ret k @ [ins]) \<rparr>"

definition convert_return ::
  "externals \<Rightarrow> bool \<Rightarrow> frame \<Rightarrow> mat \<Rightarrow> mat list list \<Rightarrow> laser_calibration \<Rightarrow> nat
     \<Rightarrow> ret_dict \<Rightarrow> py_error + ret_dict" where
  "convert_return ext flt fr frame_pose top_pose c ri_index ret =
     bindE (lookup_range_image fr (lc_name c) ri_index) (\<lambda>t.
     bindE (point_cloud_of_return ext flt frame_pose top_pose c t) (\<lambda>(pts, ins).
       Inr (ret_append (lc_name c, ri_index) pts ins ret)))"

definition convert_range_image_to_point_cloud ::
  "externals \<Rightarrow> bool \<Rightarrow> frame \<Rightarrow> nat list \<Rightarrow> py_error + ret_dict" where
  "convert_range_image_to_point_cloud ext flt fr ri_indexes =
     (let calibrations = sort_key (\<lambda>c. laser_id (lc_name c)) (laser_calibrations fr)
      in bindE (reshape_4_4 (pose_transform fr)) (\<lambda>frame_pose.
         bindE (case range_image_top_pose fr of
                  None \<Rightarrow> Inl AttributeError
                | Some grid \<Rightarrow> Inr (top_pose_tensor ext grid)) (\<lambda>top_pose.
           foldE (\<lambda>c. foldE (convert_return ext flt fr frame_pose top_pose c) ri_indexes)
             calibrations empty_ret)))"


text \<open>
  The spec's words for the mask: a pixel is valid iff its range is strictly positive and,
  if no-label-zone filtering is enabled, its no-label-zone channel is not 1.0; the number
  of valid pixels of a range image.
\<close>

definition valid_pixel :: "bool \<Rightarrow> pixel \<Rightarrow> bool" where
  "valid_pixel flt p = (ch_range p > 0 \<and> (flt \<longrightarrow> ch_nlz p \<noteq> 1))"

definition count_valid :: "bool \<Rightarrow> range_image \<Rightarrow> nat" where
  "count_valid flt t = length (filter (valid_pixel flt) (concat t))"

section \<open>Messages and the log\<close>

record transform_stamped =
  ts_stamp :: int
  ts_frame_id :: string
  ts_child_frame_id :: string
  ts_translation :: "real \<times> real \<times> real"
  ts_rotation :: "real \<times> real \<times> real \<times> real"

text \<open>
  The messages written, with the fields the converter sets:
  \<open>Odometry stamp frame_id child_frame_id position orientation\<close>,
  \<open>TFMessage transforms\<close>,
  \<open>Image stamp frame_id height width encoding data\<close>,
  \<open>CameraInfo stamp frame_id width height distortion_model D K R P\<close>,
  \<open>PointCloud2 stamp frame_id fields points\<close>.
\<close>

datatype message =
    Odometry int string string "real \<times> real \<times> real" "real \<times> real \<times> real \<times> real"
  | TFMessage "transform_stamped list"
  | Image int string nat nat string "nat list"
  | CameraInfo int string nat nat string "real list" "real list" "real list" "real list"
  | PointCloud2 int string "string list" "(real \<times> real \<times> real \<times> real) list"

text \<open>An entry of a bag: topic, message, time.\<close>

type_synonym bag_entry = "string \<times> message \<times> int"

text \<open>
  The state the converter works on: \<open>self.static_tf_message\<close>, the messages of the bag
  that is open, and the bag files closed so far, by file name.
\<close>

record state =
  static_tf_message :: "transform_stamped list option"
  bag :: "bag_entry list"
  files :: "string \<Rightarrow> bag_entry list option"

definition init_state :: state where
  "init_state = \<lparr> static_tf_message = None, bag = [], files = (\<lambda>_. None) \<rparr>"

text \<open>\<open>bag.write(topic, msg, t=t)\<close>\<close>

definition bag_write :: "string \<Rightarrow> message \<Rightarrow> int \<Rightarrow> state \<Rightarrow> state" where
  "bag_write topic msg t s = s\<lparr> bag := bag s @ [(topic, msg, t)] \<rparr>"

section \<open>The writers\<close>

text \<open>\<open>to_transform\<close> (source lines 282-296); \<open>rospy.Time()\<close> is the stamp 0.\<close>

definition to_transform :: "externals \<Rightarrow> string \<Rightarrow> string \<Rightarrow> int \<Rightarrow> mat \<Rightarrow> transform_stamped" where
  "to_transform ext from_frame_id to_frame_id stamp trans_mat =
     \<lparr> ts_stamp = stamp, ts_frame_id = from_frame_id, ts_child_frame_id = to_frame_id,
       ts_translation = translation_from_matrix ext trans_mat,
       ts_rotation = quaternion_from_matrix ext trans_mat \<rparr>"

text \<open>\<open>write_odom\<close> (source lines 93-110).\<close>

definition write_odom :: "externals \<Rightarrow> frame \<Rightarrow> int \<Rightarrow> state action" where
  "write_odom ext fr timestamp s =
     (case reshape_4_4 (pose_transform fr) of
        Inl e \<Rightarrow> (Some e, s)
      | Inr tf_matrix \<Rightarrow>
          (let tf_msg = to_transform ext [] [] 0 tf_matrix
           in (None, bag_write ''/odom''
                 (Odometry timestamp ''map'' ''base_link''
                    (ts_translation tf_msg) (ts_rotation tf_msg)) timestamp s)))"

text \<open>\<open>np.matmul\<close> on matrices given as lists of rows.\<close>

definition matmul :: "mat \<Rightarrow> mat \<Rightarrow> mat" where
  "matmul a b = map (\<lambda>row. map (\<lambda>col. sum_list (map2 (*) row col)) (transpose b)) a"

definition camera_to_image :: mat where
  "camera_to_image = [[0, 0, 1, 0], [-1, 0, 0, 0], [0, -1, 0, 0], [0, 0, 0, 1]]"

text \<open>
  The loop of \<open>write_tf_static\<close> that builds the message (source lines 113-133): one
  transform for every camera calibration whose frame name is \<open>front\<close>.
\<close>

fun static_transforms :: "externals \<Rightarrow> camera_calibration list \<Rightarrow> py_error + transform_stamped list" where
  "static_transforms ext [] = Inr []"
| "static_transforms ext (cc # ccs) =
     (let frame_name = camera_frame_name (cc_name cc)
      in if frame_name \<noteq> ''front'' then static_transforms ext ccs
         else bindE (reshape_4_4 (cc_extrinsic cc)) (\<lambda>vehicle_to_camera.
              bindE (static_transforms ext ccs) (\<lambda>rest.
                Inr (to_transform ext ''base_link'' frame_name 0
                       (matmul vehicle_to_camera camera_to_image) # rest))))"

text \<open>\<open>write_tf_static\<close> (source lines 112-139).\<close>

definition write_tf_static :: "externals \<Rightarrow> frame \<Rightarrow> int \<Rightarrow> state action" where
  "write_tf_static ext fr timestamp s =
     (case static_transforms ext (camera_calibrations fr) of
        Inl e \<Rightarrow> (Some e, s)
      | Inr tf_message \<Rightarrow>
          (case static_tf_message s of
             None \<Rightarrow>
               (None, (bag_write ''/tf_static'' (TFMessage tf_message) timestamp s)
                        \<lparr> static_tf_message := Some tf_message \<rparr>)
           | Some m \<Rightarrow>
               if m = tf_message then (None, s) else (Some AssertionError, s)))"

text \<open>\<open>write_image\<close> (source lines 167-194): the body of the loop, and the loop.\<close>

definition write_image_of :: "externals \<Rightarrow> int \<Rightarrow> camera_image \<Rightarrow> state action" where
  "write_image_of ext timestamp img s =
     (let frame_name = camera_frame_name (im_name img)
      in if frame_name \<noteq> ''front'' then (None, s)
         else (case imdecode_rgb ext (im_image img) of
                 None \<Rightarrow> (Some CvError, s)
               | Some (h, w, data) \<Rightarrow>
                   (None, bag_write (''/camera/'' @ frame_name @ ''/image'')
                            (Image timestamp frame_name h w ''rgb8'' data) timestamp s)))"

definition write_image :: "externals \<Rightarrow> frame \<Rightarrow> int \<Rightarrow> state action" where
  "write_image ext fr timestamp = for_each (write_image_of ext timestamp) (images fr)"

text \<open>\<open>write_camera_info\<close> (source lines 196-222): the body of the loop, and the loop.\<close>

definition write_camera_info_of :: "int \<Rightarrow> camera_calibration \<Rightarrow> state action" where
  "write_camera_info_of timestamp cc s =
     (let frame_name = camera_frame_name (cc_name cc); intr = cc_intrinsic cc
      in if frame_name \<noteq> ''front'' then (None, s)
         else if length intr < 4 then (Some IndexError, s)
         else (None, bag_write (''/camera/'' @ frame_name @ ''/camera_info'')
                 (CameraInfo timestamp frame_name (cc_width cc) (cc_height cc) ''plumb_bob''
                    (drop 4 intr)
                    [intr ! 0, 0, intr ! 2, 0, intr ! 1, intr ! 3, 0, 0, 1]
                    [1, 0, 0, 0, 1, 0, 0, 0, 1]
                    [intr ! 0, 0, intr ! 2, 0, 0, intr ! 1, intr ! 3, 0, 0, 0, 1, 0])
                 timestamp s))"

definition write_camera_info :: "frame \<Rightarrow> int \<Rightarrow> state action" where
  "write_camera_info fr timestamp = for_each (write_camera_info_of timestamp) (camera_calibrations fr)"

text \<open>\<open>np.concatenate(arrays, axis=0)\<close>: an empty list of arrays is an error.\<close>

definition np_concatenate :: "'a list list \<Rightarrow> py_error + 'a list" where
  "np_concatenate arrays = (if arrays = [] then Inl ValueError else Inr (concat arrays))"

text \<open>\<open>np.column_stack((points, intensity))\<close> of an [N, 3] and an [M] array.\<close>

definition column_stack :: "point list \<Rightarrow> real list \<Rightarrow> py_error + (real \<times> real \<times> real \<times> real) list" where
  "column_stack points intensity =
     (if length points = length intensity
      then Inr (map2 (\<lambda>(x, y, z) i. (x, y, z, i)) points intensity)
      else Inl ValueError)"

text \<open>
  \<open>write_point_cloud\<close> (source lines 224-279): the array built for one selected sensor
  (lines 259-274), its writing (lines 242-255 and 277), and the whole.
\<close>

definition assemble_cloud ::
  "externals \<Rightarrow> config \<Rightarrow> ret_dict \<Rightarrow> laser_name \<Rightarrow> py_error + (real \<times> real \<times> real \<times> real) list" where
  "assemble_cloud ext cfg ret lidar_id =
     bindE (np_concatenate (points_of ret (lidar_id, 0) @ points_of ret (lidar_id, 1))) (\<lambda>points.
     bindE (np_concatenate (intensity_of ret (lidar_id, 0) @ intensity_of ret (lidar_id, 1)))
       (\<lambda>intensity.
          column_stack points
            (if NORMALIZE_INTENSITY cfg then map (np_tanh ext) intensity else intensity)))"

definition write_points_to_bag ::
  "int \<Rightarrow> (real \<times> real \<times> real \<times> real) list \<Rightarrow> string \<Rightarrow> state \<Rightarrow> state" where
  "write_points_to_bag timestamp points lidar_name s =
     bag_write (''/lidar/'' @ lidar_name @ ''/pointcloud'')
       (PointCloud2 timestamp ''base_link'' [''x'', ''y'', ''z'', ''intensity''] points)
       timestamp s"

definition write_sensor_cloud ::
  "externals \<Rightarrow> config \<Rightarrow> ret_dict \<Rightarrow> int \<Rightarrow> laser_name \<times> string \<Rightarrow> state action" where
  "write_sensor_cloud ext cfg ret timestamp sensor s =
     (case assemble_cloud ext cfg ret (fst sensor) of
        Inl e \<Rightarrow> (Some e, s)
      | Inr points \<Rightarrow> (None, write_points_to_bag timestamp points (snd sensor) s))"

definition write_point_cloud :: "externals \<Rightarrow> config \<Rightarrow> frame \<Rightarrow> int \<Rightarrow> state action" where
  "write_point_cloud ext cfg fr timestamp s =
     (case convert_range_image_to_point_cloud ext (FILTER_NO_LABEL_ZONE_POINTS cfg) fr [0, 1] of
        Inl e \<Rightarrow> (Some e, s)
      | Inr ret_dict \<Rightarrow>
          for_each (write_sensor_cloud ext cfg ret_dict timestamp) (SELECTED_LIDAR_SENSOR cfg) s)"

section \<open>Frames and units\<close>

text \<open>
  The body of the frame loop of \<open>convert_tfrecord2bag\<close> (source lines 79-88): the
  writers in their order (lines 84-88), and before them the timestamp (line 82), where
  \<open>rospy.Time.from_sec\<close> raises \<open>TypeError\<close> for a negative time.
\<close>

definition write_frame :: "externals \<Rightarrow> config \<Rightarrow> frame \<Rightarrow> int \<Rightarrow> state action" where
  "write_frame ext cfg fr timestamp =
     seq (write_odom ext fr timestamp)
       (seq (write_tf_static ext fr timestamp)
       (seq (write_point_cloud ext cfg fr timestamp)
       (seq (write_image ext fr timestamp)
            (write_camera_info fr timestamp))))"

definition convert_frame :: "externals \<Rightarrow> config \<Rightarrow> frame \<Rightarrow> state action" where
  "convert_frame ext cfg fr s =
     (if timestamp_micros fr < 0 then (Some TypeError, s)
      else write_frame ext cfg fr (time_from_sec ext (timestamp_micros fr)) s)"

text \<open>An input unit: the path of the record file and its frames, decoded.\<close>

record input_unit =
  pathname :: string
  dataset :: "frame list"

text \<open>\<open>"rosbag/" + os.path.basename(pathname).split(".")[0] + ".bag"\<close>\<close>

definition basename :: "string \<Rightarrow> string" where
  "basename p = rev (takeWhile (\<lambda>c. c \<noteq> CHR ''/'') (rev p))"

definition bag_filename :: "string \<Rightarrow> string" where
  "bag_filename p = ''rosbag/'' @ takeWhile (\<lambda>c. c \<noteq> CHR ''.'') (basename p) @ ''.bag''"

text \<open>
  \<open>convert_tfrecord2bag\<close> (source lines 66-91): a new bag is opened, the frames are
  converted in order until one raises, and the bag is closed in the \<open>finally\<close> clause,
  whether the loop raised or not; the exception, if any, goes on to the caller.
\<close>

definition convert_tfrecord2bag :: "externals \<Rightarrow> config \<Rightarrow> input_unit \<Rightarrow> state action" where
  "convert_tfrecord2bag ext cfg u s =
     (case for_each (convert_frame ext cfg) (dataset u) (s\<lparr> bag := [] \<rparr>) of
        (r, s') \<Rightarrow> (r, s'\<lparr> files := (files s')(bag_filename (pathname u) := Some (bag s')) \<rparr>))"

text \<open>\<open>convert\<close> (source lines 59-64), for the list of units in \<open>self.tfrecord_pathnames\<close>.\<close>

definition reset_static_tf_message :: "state action" where
  "reset_static_tf_message s = (None, s\<lparr> static_tf_message := None \<rparr>)"

definition convert :: "externals \<Rightarrow> config \<Rightarrow> input_unit list \<Rightarrow> state action" where
  "convert ext cfg units =
     for_each (\<lambda>u. seq (convert_tfrecord2bag ext cfg u) reset_static_tf_message) units"

text \<open>The entries of a bag on one topic.\<close>

definition on_topic :: "string \<Rightarrow> bag_entry list \<Rightarrow> bag_entry list" where
  "on_topic topic b = filter (\<lambda>entry. fst entry = topic) b"

section \<open>Sample inputs\<close>

text \<open>
  An instance of the library routines and a few small inputs, on which the model is
  evaluated. The instance follows the routines' shape (the inclinations are the evenly
  spaced ones of \<open>compute_inclination\<close>; the point of a pixel depends on its range, its
  row's inclination and the poses it is given); the theorems below hold for every instance.
  Its image decoder knows one format, the binary graymap of one pixel (the header
  \<open>P5\<close>, width 1, height 1, maximum 255, then the grey value), which it decodes to a
  one by one image of three equal bytes, and rejects every other buffer.
\<close>

definition pgm_header :: "nat list" where
  "pgm_header = [80, 53, 10, 49, 32, 49, 10, 50, 53, 53, 10]"

definition pgm_pixel :: "nat \<Rightarrow> nat list" where
  "pgm_pixel v = pgm_header @ [v]"

definition sample_ext :: externals where
  "sample_ext =
     \<lparr> compute_inclination =
         (\<lambda>lo hi h. map (\<lambda>k. (1 / 2 + real k) / real h * (hi - lo) + lo) [0..<h]),
       get_rotation_matrix = (\<lambda>roll pitch yaw. [[1, 0, 0], [0, 1, 0], [0, 0, 1]]),
       get_transform =
         (\<lambda>r (x, y, z). [r ! 0 @ [x], r ! 1 @ [y], r ! 2 @ [z], [0, 0, 0, 1]]),
       extract_point_cloud_from_range_image =
         (\<lambda>call. Inr (\<lambda>i j.
            (ec_range_image call ! i ! j * ec_inclination call ! i,
             (case ec_frame_pose call of None \<Rightarrow> 0 | Some m \<Rightarrow> m ! 0 ! 3),
             (case ec_pixel_pose call of None \<Rightarrow> 0 | Some g \<Rightarrow> g ! i ! j ! 0 ! 3)))),
       translation_from_matrix = (\<lambda>m. (m ! 0 ! 3, m ! 1 ! 3, m ! 2 ! 3)),
       quaternion_from_matrix = (\<lambda>m. (0, 0, 0, 1)),
       np_tanh = (\<lambda>x. x / (1 + \<bar>x\<bar>)),
       imdecode_rgb =
         (\<lambda>buf. if length buf = 12 \<and> take 11 buf = pgm_header \<and> buf ! 11 < 256
                then Some (1, 1, [buf ! 11, buf ! 11, buf ! 11]) else None),
       time_from_sec = (\<lambda>micros. micros * 1000) \<rparr>"

definition px :: "real \<Rightarrow> real \<Rightarrow> real \<Rightarrow> pixel" where
  "px r i z = \<lparr> ch_range = r, ch_intensity = i, ch_elongation = 0, ch_nlz = z \<rparr>"

definition sample_image :: range_image where
  "sample_image = [[px 5 7 0, px 0 8 0], [px 3 9 1, px (-1) 4 0]]"

definition sample_image2 :: range_image where
  "sample_image2 = [[px 0 1 0, px 2 6 0], [px 0 2 0, px 0 3 0]]"

definition identity16 :: "real list" where
  "identity16 = [1, 0, 0, 0, 0, 1, 0, 0, 0, 0, 1, 0, 0, 0, 0, 1]"

definition identity_4_4 :: mat where
  "identity_4_4 = [[1, 0, 0, 0], [0, 1, 0, 0], [0, 0, 1, 0], [0, 0, 0, 1]]"

definition shifted_4_4 :: mat where
  "shifted_4_4 = [[1, 0, 0, 2], [0, 1, 0, 0], [0, 0, 1, 0], [0, 0, 0, 1]]"

definition sample_top_pose :: "mat list list" where
  "sample_top_pose = [[shifted_4_4, shifted_4_4], [shifted_4_4, shifted_4_4]]"

definition sample_laser :: "laser_name \<Rightarrow> real list \<Rightarrow> laser_calibration" where
  "sample_laser n incl =
     \<lparr> lc_name = n, beam_inclinations = incl, beam_inclination_min = -1,
       beam_inclination_max = 1, lc_extrinsic = identity16 \<rparr>"

definition sample_camera :: "camera_name \<Rightarrow> camera_calibration" where
  "sample_camera n =
     \<lparr> cc_name = n, cc_extrinsic = identity16, cc_intrinsic = [1, 2, 3, 4, 5, 6, 7, 8, 9],
       cc_width = 4, cc_height = 3 \<rparr>"

definition sample_frame :: "int \<Rightarrow> camera_calibration list \<Rightarrow> camera_image list \<Rightarrow> frame" where
  "sample_frame ts ccs ims =
     \<lparr> timestamp_micros = ts, pose_transform = identity16,
       laser_calibrations = [sample_laser L_TOP [1, 2]],
       camera_calibrations = ccs, images = ims,
       range_images = (\<lambda>n. if n = L_TOP then Some [sample_image, sample_image2] else None),
       range_image_top_pose = Some [[(0, 0, 0, 0, 0, 0), (0, 0, 0, 0, 0, 0)],
                                    [(0, 0, 0, 0, 0, 0), (0, 0, 0, 0, 0, 0)]] \<rparr>"


text \<open>
  Auxiliary notions of the proofs: a result dict whose point and intensity entries have
  the same shape, and the sample results.
\<close>

definition balanced :: "ret_dict \<Rightarrow> bool" where
  "balanced ret \<longleftrightarrow> (\<forall>k. map length (points_of ret k) = map length (intensity_of ret k))"

definition identity_grid :: "mat list list" where
  "identity_grid = [[identity_4_4, identity_4_4], [identity_4_4, identity_4_4]]"

definition sample_ret :: ret_dict where
  "sample_ret =
     ret_append (L_TOP, 1) [(4, 0, 0)] [6]
       (ret_append (L_TOP, 0) [(10, 0, 0), (3, 0, 0)] [7, 9] empty_ret)"

definition frame_without_lasers :: frame where
  "frame_without_lasers = (sample_frame 1 [] [])\<lparr> laser_calibrations := [] \<rparr>"


text \<open>
  The camera entries of a frame that are named \<open>FRONT\<close>, and sample frames with
  cameras.
\<close>

definition front_images :: "frame \<Rightarrow> camera_image list" where
  "front_images fr = filter (\<lambda>im. im_name im = C_FRONT) (images fr)"

definition front_calibrations :: "frame \<Rightarrow> camera_calibration list" where
  "front_calibrations fr = filter (\<lambda>cc. cc_name cc = C_FRONT) (camera_calibrations fr)"

definition two_front_images :: "camera_image list" where
  "two_front_images = [\<lparr> im_name = C_FRONT, im_image = pgm_pixel 0 \<rparr>,
                       \<lparr> im_name = C_FRONT, im_image = pgm_pixel 255 \<rparr>]"

definition camera_frame :: frame where
  "camera_frame = sample_frame 1 [sample_camera C_FRONT, sample_camera C_SIDE_LEFT]
     [\<lparr> im_name = C_SIDE_LEFT, im_image = [4] \<rparr>,
      \<lparr> im_name = C_FRONT, im_image = pgm_pixel 7 \<rparr>]"


text \<open>
  What a state holds of the static transform (the snapshot and the entries of the open
  bag on the topic \<open>/tf_static\<close>), and sample units.
\<close>

definition tf_view :: "state \<Rightarrow> transform_stamped list option \<times> bag_entry list" where
  "tf_view s = (static_tf_message s, on_topic ''/tf_static'' (bag s))"

definition sample_rows :: "(real \<times> real \<times> real \<times> real) list" where
  "sample_rows = [(10, 0, 0, 7 / 8), (3, 0, 0, 9 / 10), (4, 0, 0, 6 / 7)]"

definition sample_unit :: input_unit where
  "sample_unit = \<lparr> pathname = ''tfrecord/a.tfrecord'',
                   dataset = [sample_frame 1 [] [], sample_frame 2 [] []] \<rparr>"

definition bad_frame :: frame where
  "bad_frame = (sample_frame 1 [] [])\<lparr> pose_transform := [] \<rparr>"

definition bad_unit :: input_unit where
  "bad_unit = \<lparr> pathname = ''tfrecord/a.tfrecord'', dataset = [bad_frame] \<rparr>"

definition good_unit :: input_unit where
  "good_unit = \<lparr> pathname = ''tfrecord/b.tfrecord'', dataset = [sample_frame 2 [] []] \<rparr>"


text \<open>
  A second unit with a front camera, whose static transform differs from the one of
  \<open>good_unit\<close>.
\<close>

definition front_unit :: input_unit where
  "front_unit = \<lparr> pathname = ''tfrecord/c.tfrecord'',
                  dataset = [sample_frame 1 [sample_camera C_FRONT] []] \<rparr>"





section \<open>Properties of the array primitives\<close>

lemma bindE_Inr_iff: "bindE m f = Inr y \<longleftrightarrow> (\<exists>x. m = Inr x \<and> f x = Inr y)"
  by (cases m) (simp_all add: bindE_def)

lemma bindE_Inl_iff: "bindE m f = Inl e \<longleftrightarrow> m = Inl e \<or> (\<exists>x. m = Inr x \<and> f x = Inl e)"
  by (cases m) (simp_all add: bindE_def)

lemma tensor_and_same:
  "tensor_and (map (map f) t) (map (map g) t) = map (map (\<lambda>p. f p \<and> g p)) t"
  unfolding tensor_and_def
  by (induction t) (auto simp: zip_map_map intro!: nth_equalityI)

lemma range_image_mask_eq: "range_image_mask flt t = map (map (valid_pixel flt)) t"
  by (simp add: range_image_mask_def Let_def tensor_and_same valid_pixel_def)

lemma filter_nth_indices:
  "map (\<lambda>j. f (xs ! j)) (filter (\<lambda>j. P (xs ! j)) [0..<length xs]) = map f (filter P xs)"
proof -
  have "map f (filter P xs) = map f (filter P (map ((!) xs) [0..<length xs]))"
    by (simp add: map_nth)
  also have "\<dots> = map (\<lambda>j. f (xs ! j)) (filter (\<lambda>j. P (xs ! j)) [0..<length xs])"
    by (simp add: filter_map comp_def)
  finally show ?thesis by simp
qed

lemma tf_where_map:
  "tf_where (map (map P) t) =
     concat (map (\<lambda>i. map (\<lambda>j. (i, j)) (filter (\<lambda>j. P (t ! i ! j)) [0..<length (t ! i)]))
                 [0..<length t])"
proof -
  have row: "filter ((!) (map P (t ! i))) [0..<length (t ! i)]
        = filter (\<lambda>j. P (t ! i ! j)) [0..<length (t ! i)]" for i
    by (rule filter_cong) auto
  show ?thesis
    unfolding tf_where_def length_map
    by (rule arg_cong[where f=concat], rule map_cong) (simp_all add: row)
qed

lemma gather_where:
  "map (\<lambda>(i, j). f (t ! i ! j)) (tf_where (map (map P) t)) = map f (filter P (concat t))"
proof -
  have "map (\<lambda>(i, j). f (t ! i ! j)) (tf_where (map (map P) t)) =
        concat (map (\<lambda>i. map (\<lambda>j. f (t ! i ! j)) (filter (\<lambda>j. P (t ! i ! j)) [0..<length (t ! i)]))
                 [0..<length t])"
    by (simp add: tf_where_map map_concat comp_def)
  also have "\<dots> = concat (map (\<lambda>i. map f (filter P (t ! i))) [0..<length t])"
    by (simp add: filter_nth_indices)
  also have "\<dots> = concat (map (\<lambda>r. map f (filter P r)) (map ((!) t) [0..<length t]))"
    by (simp add: comp_def)
  also have "\<dots> = map f (filter P (concat t))"
    by (simp add: map_nth map_concat filter_concat comp_def)
  finally show ?thesis .
qed

lemma set_tf_where:
  "set (tf_where m) = {(i, j). i < length m \<and> j < length (m ! i) \<and> m ! i ! j}"
  unfolding tf_where_def by auto

lemma distinct_indexed_concat:
  "distinct rows \<Longrightarrow> (\<And>i. distinct (f i))
     \<Longrightarrow> distinct (concat (map (\<lambda>i. map (\<lambda>j. (i, j)) (f i)) rows))"
  by (induction rows) (auto simp: distinct_map inj_on_def)

lemma distinct_tf_where: "distinct (tf_where m)"
  unfolding tf_where_def by (rule distinct_indexed_concat) auto

lemma length_tf_where_mask:
  "length (tf_where (range_image_mask flt t)) = count_valid flt t"
proof -
  have "length (map (\<lambda>(i, j). t ! i ! j) (tf_where (map (map (valid_pixel flt)) t)))
        = length (map id (filter (valid_pixel flt) (concat t)))"
    using gather_where[of id t "valid_pixel flt"] by simp
  then show ?thesis by (simp add: range_image_mask_eq count_valid_def)
qed
lemma in_where_mask:
  "(i, j) \<in> set (tf_where (range_image_mask flt t))
     \<longleftrightarrow> i < length t \<and> j < length (t ! i) \<and> valid_pixel flt (t ! i ! j)"
  by (auto simp: range_image_mask_eq set_tf_where)

lemma gather_nd_in_range:
  assumes "\<And>i j. (i, j) \<in> set idx \<Longrightarrow> i < length p \<and> j < length (p ! i)"
  shows "gather_nd p idx = Inr (map (\<lambda>(i, j). p ! i ! j) idx)"
  using assms by (auto simp: gather_nd_def list_all_iff)

lemma gather_intensity:
  "gather_nd (map (map ch_intensity) t) (tf_where (range_image_mask flt t))
   = Inr (map (\<lambda>(i, j). ch_intensity (t ! i ! j)) (tf_where (range_image_mask flt t)))"
proof -
  let ?idx = "tf_where (range_image_mask flt t)"
  have g: "gather_nd (map (map ch_intensity) t) ?idx
            = Inr (map (\<lambda>(i, j). map (map ch_intensity) t ! i ! j) ?idx)"
    by (rule gather_nd_in_range) (simp add: in_where_mask)
  have c: "map (\<lambda>(i, j). map (map ch_intensity) t ! i ! j) ?idx
            = map (\<lambda>(i, j). ch_intensity (t ! i ! j)) ?idx"
    by (rule map_cong) (auto simp: in_where_mask)
  show ?thesis by (simp only: g c)
qed

lemma gather_cartesian:
  "gather_nd (map (\<lambda>i. map (\<lambda>j. cart i j) [0..<length (map (map ch_range) t ! i)])
                  [0..<length (map (map ch_range) t)])
             (tf_where (range_image_mask flt t))
   = Inr (map (\<lambda>(i, j). cart i j) (tf_where (range_image_mask flt t)))"
proof -
  let ?idx = "tf_where (range_image_mask flt t)"
  let ?img = "map (\<lambda>i. map (\<lambda>j. cart i j) [0..<length (map (map ch_range) t ! i)])
                  [0..<length (map (map ch_range) t)]"
  have g: "gather_nd ?img ?idx = Inr (map (\<lambda>(i, j). ?img ! i ! j) ?idx)"
    by (rule gather_nd_in_range) (simp add: in_where_mask)
  have c: "map (\<lambda>(i, j). ?img ! i ! j) ?idx = map (\<lambda>(i, j). cart i j) ?idx"
    by (rule map_cong) (auto simp: in_where_mask)
  show ?thesis by (simp only: g c)
qed

lemma shapes_agree_args:
  "shapes_agree (extract_args ext fp tp c extr t) \<longleftrightarrow>
     length (resolved_inclinations ext c t) = length t
     \<and> (lc_name c = L_TOP \<longrightarrow> map length tp = map length t)"
  by (simp add: shapes_agree_def extract_args_def comp_def)

lemma range_image_cartesian_Inr_iff:
  "range_image_cartesian ext call = Inr img \<longleftrightarrow>
     shapes_agree call
     \<and> (\<exists>cart. extract_point_cloud_from_range_image ext call = Inr cart
           \<and> img = map (\<lambda>i. map (\<lambda>j. cart i j) [0..<length (ec_range_image call ! i)])
                        [0..<length (ec_range_image call)])"
  by (auto simp: range_image_cartesian_def bindE_Inr_iff)

lemma range_image_of_args: "ec_range_image (extract_args ext fp tp c extr t) = map (map ch_range) t"
  by (simp add: extract_args_def)

lemma point_cloud_of_return_success:
  assumes "reshape_4_4 (lc_extrinsic c) = Inr extr"
    and "shapes_agree (extract_args ext fp tp c extr t)"
    and "extract_point_cloud_from_range_image ext (extract_args ext fp tp c extr t) = Inr cart"
  shows "point_cloud_of_return ext flt fp tp c t =
           Inr (map (\<lambda>(i, j). cart i j) (tf_where (range_image_mask flt t)),
                map (\<lambda>(i, j). ch_intensity (t ! i ! j)) (tf_where (range_image_mask flt t)))"
proof -
  have r: "range_image_cartesian ext (extract_args ext fp tp c extr t)
           = Inr (map (\<lambda>i. map (\<lambda>j. cart i j) [0..<length (map (map ch_range) t ! i)])
                      [0..<length (map (map ch_range) t)])"
    using assms(2,3) by (simp add: range_image_cartesian_Inr_iff range_image_of_args)
  show ?thesis
    unfolding point_cloud_of_return_def assms(1) Let_def
    by (simp only: bindE_def sum.case r gather_cartesian gather_intensity)
qed

lemma point_cloud_of_return_Inr:
  assumes "point_cloud_of_return ext flt fp tp c t = Inr (pts, ins)"
  shows "\<exists>extr cart. reshape_4_4 (lc_extrinsic c) = Inr extr
           \<and> shapes_agree (extract_args ext fp tp c extr t)
           \<and> extract_point_cloud_from_range_image ext (extract_args ext fp tp c extr t) = Inr cart
           \<and> pts = map (\<lambda>(i, j). cart i j) (tf_where (range_image_mask flt t))
           \<and> ins = map (\<lambda>(i, j). ch_intensity (t ! i ! j)) (tf_where (range_image_mask flt t))"
proof -
  from assms obtain extr img where e: "reshape_4_4 (lc_extrinsic c) = Inr extr"
    and i: "range_image_cartesian ext (extract_args ext fp tp c extr t) = Inr img"
    by (auto simp: point_cloud_of_return_def Let_def bindE_Inr_iff)
  from i obtain cart where a: "shapes_agree (extract_args ext fp tp c extr t)"
    and x: "extract_point_cloud_from_range_image ext (extract_args ext fp tp c extr t) = Inr cart"
    by (auto simp: range_image_cartesian_Inr_iff)
  from assms point_cloud_of_return_success[OF e a x, of flt] show ?thesis
    using e a x by auto
qed

lemma point_cloud_of_return_shapes:
  assumes "reshape_4_4 (lc_extrinsic c) = Inr extr"
    and "\<not> shapes_agree (extract_args ext fp tp c extr t)"
  shows "point_cloud_of_return ext flt fp tp c t = Inl InvalidArgumentError"
  unfolding point_cloud_of_return_def assms(1) Let_def
  using assms(2) by (simp add: bindE_def range_image_cartesian_def)

lemma sample_extrinsic: "reshape_4_4 (lc_extrinsic (sample_laser n incl)) = Inr identity_4_4"
  by (simp add: reshape_4_4_def sample_laser_def identity16_def identity_4_4_def)

lemma count_valid_sample: "count_valid True sample_image = 1" "count_valid False sample_image = 2"
  by (simp_all add: count_valid_def sample_image_def valid_pixel_def px_def)

section \<open>The geometry engine\<close>

lemma sample_extract:
  "extract_point_cloud_from_range_image sample_ext call =
     Inr (\<lambda>i j. (ec_range_image call ! i ! j * ec_inclination call ! i,
                  (case ec_frame_pose call of None \<Rightarrow> 0 | Some m \<Rightarrow> m ! 0 ! 3),
                  (case ec_pixel_pose call of None \<Rightarrow> 0 | Some g \<Rightarrow> g ! i ! j ! 0 ! 3)))"
  by (simp add: sample_ext_def)

lemma sample_shapes:
  "length sample_image = 2" "length sample_image2 = 2"
  "map length sample_image = [2, 2]" "map length sample_image2 = [2, 2]"
  "map length sample_top_pose = [2, 2]"
  by (simp_all add: sample_image_def sample_image2_def sample_top_pose_def)

lemma explicit_inclinations:
  "resolved_inclinations ext (sample_laser n [1, 2]) t = [2, 1]"
  "resolved_inclinations ext (sample_laser n [1, 2, 3]) t = [3, 2, 1]"
  by (simp_all add: resolved_inclinations_def sample_laser_def)

lemma where_sample_filtered:
  "tf_where (range_image_mask True sample_image) = [(0, 0)]"
  by (simp add: tf_where_def range_image_mask_def tensor_and_def sample_image_def px_def)

text \<open>
  Claim C1. For a range image of one sensor and one return index: whenever the conversion
  yields a point array and an intensity array, the number of points is the number of valid
  pixels, the intensity array has the same length, and for every position \<open>k\<close> the point
  and the intensity at \<open>k\<close> come from the same pixel, the \<open>k\<close>-th true entry of the mask
  in row-major order. The conversion yields the two arrays when the extrinsic is a 4 by 4
  transform, there is one inclination for every image row, the pose grid handed over for
  the top sensor has the shape of the image, and the geometry routine returns; it raises
  \<open>InvalidArgumentError\<close> when the shapes do not agree.
\<close>

theorem points_intensity_same_pixels:
  "(\<forall>pts ins. point_cloud_of_return ext flt fp tp c t = Inr (pts, ins) \<longrightarrow>
       length pts = count_valid flt t \<and> length ins = count_valid flt t
       \<and> (\<exists>extr cart.
             reshape_4_4 (lc_extrinsic c) = Inr extr
           \<and> extract_point_cloud_from_range_image ext (extract_args ext fp tp c extr t) = Inr cart
           \<and> (\<forall>k < count_valid flt t. \<exists>i j.
                 tf_where (range_image_mask flt t) ! k = (i, j)
               \<and> i < length t \<and> j < length (t ! i) \<and> valid_pixel flt (t ! i ! j)
               \<and> pts ! k = cart i j
               \<and> ins ! k = ch_intensity (t ! i ! j))))
   \<and> (\<forall>extr cart.
         reshape_4_4 (lc_extrinsic c) = Inr extr
       \<and> length (resolved_inclinations ext c t) = length t
       \<and> (lc_name c = L_TOP \<longrightarrow> map length tp = map length t)
       \<and> extract_point_cloud_from_range_image ext (extract_args ext fp tp c extr t) = Inr cart
       \<longrightarrow> (\<exists>pts ins. point_cloud_of_return ext flt fp tp c t = Inr (pts, ins)))
   \<and> (\<forall>extr.
         reshape_4_4 (lc_extrinsic c) = Inr extr
       \<and> (length (resolved_inclinations ext c t) \<noteq> length t
          \<or> lc_name c = L_TOP \<and> map length tp \<noteq> map length t)
       \<longrightarrow> point_cloud_of_return ext flt fp tp c t = Inl InvalidArgumentError)"
proof (intro conjI allI impI)
  let ?idx = "tf_where (range_image_mask flt t)"
  have len: "length ?idx = count_valid flt t"
    by (rule length_tf_where_mask)
  fix pts ins
  assume r: "point_cloud_of_return ext flt fp tp c t = Inr (pts, ins)"
  from point_cloud_of_return_Inr[OF r] obtain extr cart where
    e: "reshape_4_4 (lc_extrinsic c) = Inr extr"
    and x: "extract_point_cloud_from_range_image ext (extract_args ext fp tp c extr t) = Inr cart"
    and pts: "pts = map (\<lambda>(i, j). cart i j) ?idx"
    and ins: "ins = map (\<lambda>(i, j). ch_intensity (t ! i ! j)) ?idx"
    by blast
  show "length pts = count_valid flt t" by (simp add: pts len)
  show "length ins = count_valid flt t" by (simp add: ins len)
  have "\<exists>i j. ?idx ! k = (i, j) \<and> i < length t \<and> j < length (t ! i)
              \<and> valid_pixel flt (t ! i ! j)
              \<and> pts ! k = cart i j \<and> ins ! k = ch_intensity (t ! i ! j)"
    if "k < count_valid flt t" for k
  proof -
    obtain i j where ij: "?idx ! k = (i, j)" by (cases "?idx ! k")
    have "(i, j) \<in> set ?idx" using that len ij by (metis nth_mem)
    then have "i < length t \<and> j < length (t ! i) \<and> valid_pixel flt (t ! i ! j)"
      by (simp add: in_where_mask)
    then show ?thesis using ij that len by (simp add: pts ins)
  qed
  then show "\<exists>extr cart.
             reshape_4_4 (lc_extrinsic c) = Inr extr
           \<and> extract_point_cloud_from_range_image ext (extract_args ext fp tp c extr t) = Inr cart
           \<and> (\<forall>k < count_valid flt t. \<exists>i j.
                 tf_where (range_image_mask flt t) ! k = (i, j)
               \<and> i < length t \<and> j < length (t ! i) \<and> valid_pixel flt (t ! i ! j)
               \<and> pts ! k = cart i j
               \<and> ins ! k = ch_intensity (t ! i ! j))"
    using e x by blast
next
  fix extr cart
  assume h: "reshape_4_4 (lc_extrinsic c) = Inr extr
       \<and> length (resolved_inclinations ext c t) = length t
       \<and> (lc_name c = L_TOP \<longrightarrow> map length tp = map length t)
       \<and> extract_point_cloud_from_range_image ext (extract_args ext fp tp c extr t) = Inr cart"
  then have "shapes_agree (extract_args ext fp tp c extr t)"
    by (simp add: shapes_agree_args)
  with h show "\<exists>pts ins. point_cloud_of_return ext flt fp tp c t = Inr (pts, ins)"
    using point_cloud_of_return_success[of c extr ext fp tp t cart flt] by blast
next
  fix extr
  assume h: "reshape_4_4 (lc_extrinsic c) = Inr extr
       \<and> (length (resolved_inclinations ext c t) \<noteq> length t
          \<or> lc_name c = L_TOP \<and> map length tp \<noteq> map length t)"
  then have "\<not> shapes_agree (extract_args ext fp tp c extr t)"
    by (auto simp: shapes_agree_args)
  with h show "point_cloud_of_return ext flt fp tp c t = Inl InvalidArgumentError"
    using point_cloud_of_return_shapes by blast
qed

text \<open>
  The sample image with filtering: one valid pixel, of intensity 7. Three inclinations on
  its two rows make the conversion raise.
\<close>

theorem points_intensity_same_pixels_witness:
  "reshape_4_4 (lc_extrinsic (sample_laser L_TOP [1, 2])) = Inr identity_4_4
   \<and> length (resolved_inclinations sample_ext (sample_laser L_TOP [1, 2]) sample_image)
       = length sample_image
   \<and> map length sample_top_pose = map length sample_image
   \<and> count_valid True sample_image = 1
   \<and> (\<exists>pts ins. point_cloud_of_return sample_ext True identity_4_4 sample_top_pose
                    (sample_laser L_TOP [1, 2]) sample_image = Inr (pts, ins)
               \<and> length pts = 1 \<and> length ins = 1 \<and> ins ! 0 = 7)
   \<and> length (resolved_inclinations sample_ext (sample_laser L_TOP [1, 2, 3]) sample_image)
       \<noteq> length sample_image
   \<and> point_cloud_of_return sample_ext True identity_4_4 sample_top_pose
        (sample_laser L_TOP [1, 2, 3]) sample_image = Inl InvalidArgumentError"
proof -
  let ?c = "sample_laser L_TOP [1, 2]"
  let ?d = "sample_laser L_TOP [1, 2, 3]"
  let ?run = "point_cloud_of_return sample_ext True identity_4_4 sample_top_pose ?c sample_image"
  note main = points_intensity_same_pixels[of sample_ext True identity_4_4 sample_top_pose ?c
      sample_image]
  note fail = points_intensity_same_pixels[of sample_ext True identity_4_4 sample_top_pose ?d
      sample_image]
  have h1: "reshape_4_4 (lc_extrinsic ?c) = Inr identity_4_4"
    and h1': "reshape_4_4 (lc_extrinsic ?d) = Inr identity_4_4"
    by (rule sample_extrinsic)+
  have h2: "length (resolved_inclinations sample_ext ?c sample_image) = length sample_image"
    by (simp add: explicit_inclinations sample_shapes)
  have h3: "map length sample_top_pose = map length sample_image"
    by (simp add: sample_shapes)
  have h4: "length (resolved_inclinations sample_ext ?d sample_image) \<noteq> length sample_image"
    by (simp add: explicit_inclinations sample_shapes)
  have cv: "count_valid True sample_image = 1"
    by (simp add: count_valid_sample)
  from main h1 h2 h3 sample_extract obtain pts ins where r: "?run = Inr (pts, ins)"
    by blast
  from main[THEN conjunct1, rule_format, OF r] obtain extr cart where
    l: "length pts = count_valid True sample_image" "length ins = count_valid True sample_image"
    and k: "\<forall>k < count_valid True sample_image. \<exists>i j.
                 tf_where (range_image_mask True sample_image) ! k = (i, j)
               \<and> i < length sample_image \<and> j < length (sample_image ! i)
               \<and> valid_pixel True (sample_image ! i ! j)
               \<and> pts ! k = cart i j
               \<and> ins ! k = ch_intensity (sample_image ! i ! j)"
    by blast
  have "0 < count_valid True sample_image" by (simp add: cv)
  from k[rule_format, OF this] obtain i j where
    "tf_where (range_image_mask True sample_image) ! 0 = (i, j)"
    "ins ! 0 = ch_intensity (sample_image ! i ! j)"
    by blast
  then have "ins ! 0 = ch_intensity (sample_image ! 0 ! 0)"
    unfolding where_sample_filtered by simp
  then have i0: "ins ! 0 = 7"
    by (simp add: sample_image_def px_def)
  from fail h1' h4 have f: "point_cloud_of_return sample_ext True identity_4_4 sample_top_pose
        ?d sample_image = Inl InvalidArgumentError"
    by blast
  show ?thesis
    using h1 h2 h3 h4 cv r l i0 f by auto
qed

text \<open>
  Claim C2. The inclinations handed to the geometry routine, whose entry \<open>i\<close> belongs to
  image row \<open>i\<close>, are the reversed list: the calibration's explicit list reversed when
  it has one, and otherwise the reversed list of the inclinations interpolated between the
  minimum and the maximum over the image height. Row \<open>i\<close> of \<open>n + 1\<close> rows gets entry
  \<open>n - i\<close> of the list.
\<close>

theorem inclinations_reversed:
  "ec_inclination (extract_args ext fp tp c extr t) =
     rev (if beam_inclinations c = []
          then compute_inclination ext (beam_inclination_min c) (beam_inclination_max c) (length t)
          else beam_inclinations c)
   \<and> (\<forall>a n. beam_inclinations c = a \<and> length a = Suc n \<longrightarrow>
         (\<forall>i \<le> n. ec_inclination (extract_args ext fp tp c extr t) ! i = a ! (n - i)))
   \<and> (\<forall>a n. beam_inclinations c = []
            \<and> compute_inclination ext (beam_inclination_min c) (beam_inclination_max c) (length t) = a
            \<and> length a = Suc n \<longrightarrow>
         (\<forall>i \<le> n. ec_inclination (extract_args ext fp tp c extr t) ! i = a ! (n - i)))"
  by (auto simp: extract_args_def resolved_inclinations_def rev_nth)

theorem inclinations_reversed_witness:
  "ec_inclination (extract_args sample_ext identity_4_4 sample_top_pose
      (sample_laser L_TOP [1, 2, 3]) identity_4_4 sample_image) = [3, 2, 1]
   \<and> ec_inclination (extract_args sample_ext identity_4_4 sample_top_pose
      (sample_laser L_FRONT []) identity_4_4 sample_image) = [1 / 2, - 1 / 2]"
  using inclinations_reversed[of sample_ext identity_4_4 sample_top_pose "sample_laser L_TOP [1, 2, 3]"
            identity_4_4 sample_image]
        inclinations_reversed[of sample_ext identity_4_4 sample_top_pose "sample_laser L_FRONT []"
            identity_4_4 sample_image]
  by (simp add: sample_laser_def sample_ext_def sample_image_def numeral_2_eq_2)

text \<open>
  Claim C3. The pixels gathered into the output are, each exactly once, the pixels whose
  range channel is strictly positive; with no-label-zone filtering enabled, a pixel whose
  no-label-zone channel is 1.0 is left out even though its range is positive. Whenever the
  conversion yields its two arrays they are gathered at exactly these pixels, and it
  yields them when the extrinsic is a 4 by 4 transform, the shapes of the inclinations and
  of the pose grid agree with the image, and the geometry routine returns.
\<close>

theorem mask_selects_valid_pixels:
  "\<exists>idx. distinct idx
     \<and> (\<forall>i j. (i, j) \<in> set idx \<longleftrightarrow>
            i < length t \<and> j < length (t ! i) \<and> ch_range (t ! i ! j) > 0
            \<and> (flt \<longrightarrow> ch_nlz (t ! i ! j) \<noteq> 1))
     \<and> (\<forall>pts ins. point_cloud_of_return ext flt fp tp c t = Inr (pts, ins) \<longrightarrow>
            (\<exists>extr cart.
                reshape_4_4 (lc_extrinsic c) = Inr extr
              \<and> extract_point_cloud_from_range_image ext (extract_args ext fp tp c extr t)
                  = Inr cart
              \<and> pts = map (\<lambda>(i, j). cart i j) idx)
            \<and> ins = map (\<lambda>(i, j). ch_intensity (t ! i ! j)) idx)
     \<and> (\<forall>extr cart.
            reshape_4_4 (lc_extrinsic c) = Inr extr
          \<and> length (resolved_inclinations ext c t) = length t
          \<and> (lc_name c = L_TOP \<longrightarrow> map length tp = map length t)
          \<and> extract_point_cloud_from_range_image ext (extract_args ext fp tp c extr t) = Inr cart
          \<longrightarrow> point_cloud_of_return ext flt fp tp c t =
                Inr (map (\<lambda>(i, j). cart i j) idx,
                     map (\<lambda>(i, j). ch_intensity (t ! i ! j)) idx))"
proof (intro exI[of _ "tf_where (range_image_mask flt t)"] conjI allI impI)
  show "distinct (tf_where (range_image_mask flt t))"
    by (rule distinct_tf_where)
  show "(i, j) \<in> set (tf_where (range_image_mask flt t)) \<longleftrightarrow>
          i < length t \<and> j < length (t ! i) \<and> ch_range (t ! i ! j) > 0
          \<and> (flt \<longrightarrow> ch_nlz (t ! i ! j) \<noteq> 1)" for i j
    by (simp add: in_where_mask valid_pixel_def)
next
  fix pts ins
  assume r: "point_cloud_of_return ext flt fp tp c t = Inr (pts, ins)"
  from point_cloud_of_return_Inr[OF r]
  show "\<exists>extr cart.
                reshape_4_4 (lc_extrinsic c) = Inr extr
              \<and> extract_point_cloud_from_range_image ext (extract_args ext fp tp c extr t)
                  = Inr cart
              \<and> pts = map (\<lambda>(i, j). cart i j) (tf_where (range_image_mask flt t))"
    by blast
  from point_cloud_of_return_Inr[OF r]
  show "ins = map (\<lambda>(i, j). ch_intensity (t ! i ! j)) (tf_where (range_image_mask flt t))"
    by blast
next
  fix extr cart
  assume h: "reshape_4_4 (lc_extrinsic c) = Inr extr
          \<and> length (resolved_inclinations ext c t) = length t
          \<and> (lc_name c = L_TOP \<longrightarrow> map length tp = map length t)
          \<and> extract_point_cloud_from_range_image ext (extract_args ext fp tp c extr t) = Inr cart"
  then have "shapes_agree (extract_args ext fp tp c extr t)"
    by (simp add: shapes_agree_args)
  with h show "point_cloud_of_return ext flt fp tp c t =
                Inr (map (\<lambda>(i, j). cart i j) (tf_where (range_image_mask flt t)),
                     map (\<lambda>(i, j). ch_intensity (t ! i ! j)) (tf_where (range_image_mask flt t)))"
    using point_cloud_of_return_success[of c extr ext fp tp t cart flt] by blast
qed

text \<open>
  The sample image with filtering, for the front laser: the pixel at (0, 0) is gathered,
  the pixel at (1, 0), of range 3 and inside a no-label zone, is not, nor is the pixel at
  (0, 1), of range 0; the output holds the one intensity 7.
\<close>

theorem mask_selects_valid_pixels_witness:
  "reshape_4_4 (lc_extrinsic (sample_laser L_FRONT [])) = Inr identity_4_4
   \<and> length (resolved_inclinations sample_ext (sample_laser L_FRONT []) sample_image)
       = length sample_image
   \<and> lc_name (sample_laser L_FRONT []) \<noteq> L_TOP
   \<and> (\<exists>idx pts. distinct idx \<and> (0, 0) \<in> set idx \<and> (1, 0) \<notin> set idx \<and> (0, 1) \<notin> set idx
          \<and> point_cloud_of_return sample_ext True identity_4_4 sample_top_pose
               (sample_laser L_FRONT []) sample_image
             = Inr (pts, map (\<lambda>(i, j). ch_intensity (sample_image ! i ! j)) idx))"
proof -
  let ?c = "sample_laser L_FRONT []"
  have h1: "reshape_4_4 (lc_extrinsic ?c) = Inr identity_4_4"
    by (rule sample_extrinsic)
  have h2: "length (resolved_inclinations sample_ext ?c sample_image) = length sample_image"
    by (simp add: resolved_inclinations_def sample_laser_def sample_ext_def sample_shapes)
  have h3: "lc_name ?c \<noteq> L_TOP"
    by (simp add: sample_laser_def)
  obtain idx where d: "distinct idx"
    and m: "\<And>i j. (i, j) \<in> set idx \<longleftrightarrow>
                  i < length sample_image \<and> j < length (sample_image ! i)
                  \<and> ch_range (sample_image ! i ! j) > 0
                  \<and> (True \<longrightarrow> ch_nlz (sample_image ! i ! j) \<noteq> 1)"
    and r: "\<And>extr cart.
            reshape_4_4 (lc_extrinsic ?c) = Inr extr
          \<and> length (resolved_inclinations sample_ext ?c sample_image) = length sample_image
          \<and> (lc_name ?c = L_TOP \<longrightarrow> map length sample_top_pose = map length sample_image)
          \<and> extract_point_cloud_from_range_image sample_ext
               (extract_args sample_ext identity_4_4 sample_top_pose ?c extr sample_image)
              = Inr cart
          \<longrightarrow> point_cloud_of_return sample_ext True identity_4_4 sample_top_pose ?c sample_image =
                Inr (map (\<lambda>(i, j). cart i j) idx,
                     map (\<lambda>(i, j). ch_intensity (sample_image ! i ! j)) idx)"
    using mask_selects_valid_pixels[of sample_image True sample_ext identity_4_4 sample_top_pose ?c]
    by blast
  have mem: "(0, 0) \<in> set idx" "(1, 0) \<notin> set idx" "(0, 1) \<notin> set idx"
    by (simp_all add: m sample_image_def px_def)
  from r h1 h2 h3 sample_extract
  have "\<exists>pts. point_cloud_of_return sample_ext True identity_4_4 sample_top_pose ?c sample_image
             = Inr (pts, map (\<lambda>(i, j). ch_intensity (sample_image ! i ! j)) idx)"
    by blast
  with h1 h2 h3 d mem show ?thesis by blast
qed

lemma extract_args_non_top:
  "lc_name c \<noteq> L_TOP \<Longrightarrow>
     extract_args ext fp' tp' c extr t = extract_args ext fp tp c extr t"
  by (simp add: extract_args_def)

lemma point_cloud_of_return_non_top:
  assumes "lc_name c \<noteq> L_TOP"
  shows "point_cloud_of_return ext flt fp' tp' c t = point_cloud_of_return ext flt fp tp c t"
proof -
  have "extract_args ext fp' tp' c extr t = extract_args ext fp tp c extr t" for extr
    using assms by (rule extract_args_non_top)
  then show ?thesis
    by (simp only: point_cloud_of_return_def)
qed

lemma where_sample_unfiltered:
  "tf_where (range_image_mask False sample_image) = [(0, 0), (1, 0)]"
  by (simp add: tf_where_def range_image_mask_def sample_image_def px_def)

lemma sample_inclinations:
  "resolved_inclinations sample_ext (sample_laser n []) sample_image = [1 / 2, - 1 / 2]"
  by (simp add: resolved_inclinations_def sample_ext_def sample_laser_def sample_image_def
        numeral_2_eq_2)

lemma sample_call:
  "extract_args sample_ext fp tp (sample_laser n []) extr sample_image =
     \<lparr> ec_range_image = [[5, 0], [3, -1]], ec_extrinsic = extr,
       ec_inclination = [1 / 2, - 1 / 2],
       ec_pixel_pose = (if n = L_TOP then Some tp else None),
       ec_frame_pose = (if n = L_TOP then Some fp else None) \<rparr>"
  unfolding extract_args_def sample_inclinations
  by (simp add: sample_image_def px_def sample_laser_def)

lemma sample_cloud:
  "point_cloud_of_return sample_ext False fp sample_top_pose (sample_laser n []) sample_image
   = Inr ([(5 / 2, (if n = L_TOP then fp ! 0 ! 3 else 0), (if n = L_TOP then 2 else 0)),
           (- 3 / 2, (if n = L_TOP then fp ! 0 ! 3 else 0), (if n = L_TOP then 2 else 0))],
          [7, 9])"
proof -
  have a: "shapes_agree (extract_args sample_ext fp sample_top_pose (sample_laser n [])
             identity_4_4 sample_image)"
    unfolding shapes_agree_args sample_inclinations
    by (simp add: sample_shapes)
  show ?thesis
    unfolding point_cloud_of_return_success[OF sample_extrinsic a sample_extract]
      where_sample_unfiltered sample_call
    by (simp add: sample_image_def px_def sample_top_pose_def shifted_4_4_def)
qed

text \<open>
  Claim C4, as amended. The per-pixel pose grid is handed to the geometry routine only for
  the top sensor, together with the frame pose. For every other sensor neither the
  per-pixel pose grid nor the frame-wide vehicle pose is handed over: the points are
  computed from the extrinsic, the inclinations and the ranges alone, and are the same for
  every frame pose and every pose grid.
\<close>

theorem pose_arguments_by_sensor:
  "(lc_name c = L_TOP \<longrightarrow>
      ec_pixel_pose (extract_args ext fp tp c extr t) = Some tp
      \<and> ec_frame_pose (extract_args ext fp tp c extr t) = Some fp)
   \<and> (lc_name c \<noteq> L_TOP \<longrightarrow>
      ec_pixel_pose (extract_args ext fp tp c extr t) = None
      \<and> ec_frame_pose (extract_args ext fp tp c extr t) = None
      \<and> (\<forall>fp' tp'. point_cloud_of_return ext flt fp' tp' c t
                    = point_cloud_of_return ext flt fp tp c t))"
proof -
  have "\<forall>fp' tp'. point_cloud_of_return ext flt fp' tp' c t
                    = point_cloud_of_return ext flt fp tp c t"
    if "lc_name c \<noteq> L_TOP"
    using that by (blast intro: point_cloud_of_return_non_top)
  moreover have "lc_name c = L_TOP \<Longrightarrow>
      ec_pixel_pose (extract_args ext fp tp c extr t) = Some tp
      \<and> ec_frame_pose (extract_args ext fp tp c extr t) = Some fp"
    by (simp add: extract_args_def)
  moreover have "lc_name c \<noteq> L_TOP \<Longrightarrow>
      ec_pixel_pose (extract_args ext fp tp c extr t) = None
      \<and> ec_frame_pose (extract_args ext fp tp c extr t) = None"
    by (simp add: extract_args_def)
  ultimately show ?thesis by blast
qed

theorem pose_arguments_by_sensor_witness:
  "lc_name (sample_laser L_TOP []) = L_TOP \<and> lc_name (sample_laser L_REAR []) \<noteq> L_TOP
   \<and> ec_pixel_pose (extract_args sample_ext shifted_4_4 sample_top_pose
        (sample_laser L_TOP []) identity_4_4 sample_image) = Some sample_top_pose
   \<and> ec_frame_pose (extract_args sample_ext shifted_4_4 sample_top_pose
        (sample_laser L_TOP []) identity_4_4 sample_image) = Some shifted_4_4
   \<and> ec_pixel_pose (extract_args sample_ext shifted_4_4 sample_top_pose
        (sample_laser L_REAR []) identity_4_4 sample_image) = None
   \<and> ec_frame_pose (extract_args sample_ext shifted_4_4 sample_top_pose
        (sample_laser L_REAR []) identity_4_4 sample_image) = None
   \<and> point_cloud_of_return sample_ext False identity_4_4 [] (sample_laser L_REAR []) sample_image
     = point_cloud_of_return sample_ext False shifted_4_4 sample_top_pose
         (sample_laser L_REAR []) sample_image"
proof -
  have n: "lc_name (sample_laser L_TOP []) = L_TOP" "lc_name (sample_laser L_REAR []) \<noteq> L_TOP"
    by (simp_all add: sample_laser_def)
  show ?thesis
    using n
      pose_arguments_by_sensor[of "sample_laser L_TOP []" sample_ext shifted_4_4 sample_top_pose identity_4_4
             sample_image False]
      pose_arguments_by_sensor[of "sample_laser L_REAR []" sample_ext shifted_4_4 sample_top_pose identity_4_4
             sample_image False]
    by blast
qed

text \<open>
  The claim as first stated has the points of a non-top sensor computed from the
  frame-wide vehicle pose. For the front laser the frame pose is not among the arguments
  of the geometry call, and with a geometry routine that uses the frame pose it is given,
  changing the frame pose changes the points of the top laser and leaves those of the front
  laser as they were.
\<close>

theorem non_top_frame_pose_unused:
  "ec_frame_pose (extract_args sample_ext shifted_4_4 sample_top_pose
       (sample_laser L_FRONT []) identity_4_4 sample_image) \<noteq> Some shifted_4_4
   \<and> point_cloud_of_return sample_ext False shifted_4_4 sample_top_pose
        (sample_laser L_FRONT []) sample_image
     = point_cloud_of_return sample_ext False identity_4_4 sample_top_pose
        (sample_laser L_FRONT []) sample_image
   \<and> point_cloud_of_return sample_ext False shifted_4_4 sample_top_pose
        (sample_laser L_TOP []) sample_image
     \<noteq> point_cloud_of_return sample_ext False identity_4_4 sample_top_pose
        (sample_laser L_TOP []) sample_image"
  unfolding sample_cloud sample_call
  by (simp add: shifted_4_4_def identity_4_4_def)


section \<open>The cloud assembler\<close>

lemma foldE_invariant:
  assumes "foldE f xs s = Inr s'" and "P s"
    and "\<And>x a b. P a \<Longrightarrow> f x a = Inr b \<Longrightarrow> P b"
  shows "P s'"
  using assms
proof (induction xs arbitrary: s)
  case Nil
  then show ?case by simp
next
  case (Cons x xs)
  from Cons.prems(1) obtain a where a: "f x s = Inr a" "foldE f xs a = Inr s'"
    by (auto simp: bindE_Inr_iff)
  have "P a" using Cons.prems(2,3) a(1) by blast
  then show ?case using Cons.IH[OF a(2)] Cons.prems(3) by blast
qed

lemma seq_None_iff:
  "seq f g s = (None, s'') \<longleftrightarrow> (\<exists>s'. f s = (None, s') \<and> g s' = (None, s''))"
  by (cases "f s") (auto simp: seq_def split: option.splits)

lemma seq_Some_iff:
  "seq f g s = (Some e, s'') \<longleftrightarrow>
     f s = (Some e, s'') \<or> (\<exists>s'. f s = (None, s') \<and> g s' = (Some e, s''))"
  by (cases "f s") (auto simp: seq_def split: option.splits)

lemma seq_cases:
  assumes "seq f g s = (r, s'')"
  obtains (first) e where "f s = (Some e, s'')" "r = Some e"
        | (second) s' where "f s = (None, s')" "g s' = (r, s'')"
  using assms by (cases "f s") (auto simp: seq_def split: option.splits)

lemma for_each_append:
  "for_each f (xs @ ys) s =
     (case for_each f xs s of (None, s') \<Rightarrow> for_each f ys s' | (Some e, s') \<Rightarrow> (Some e, s'))"
proof (induction xs arbitrary: s)
  case Nil
  then show ?case by simp
next
  case (Cons x xs)
  show ?case
  proof (cases "f x s")
    case (Pair r s1)
    then show ?thesis using Cons.IH[of s1]
      by (cases r) (simp_all add: seq_def)
  qed
qed

lemma for_each_invariant:
  assumes "for_each f xs s = (r, s')" and "P s"
    and "\<And>x a q b. P a \<Longrightarrow> f x a = (q, b) \<Longrightarrow> P b"
  shows "P s'"
  using assms
proof (induction xs arbitrary: s)
  case Nil
  then show ?case by simp
next
  case (Cons x xs)
  from Cons.prems(1) have "seq (f x) (for_each f xs) s = (r, s')" by simp
  then show ?case
  proof (cases rule: seq_cases)
    case (first e)
    then show ?thesis using Cons.prems(2,3) by blast
  next
    case (second s1)
    have "P s1" using Cons.prems(2,3) second(1) by blast
    then show ?thesis using Cons.IH[OF second(2)] Cons.prems(3) by blast
  qed
qed

lemma for_each_fails:
  assumes "x \<in> set xs" and "\<And>a. fst (f x a) \<noteq> None"
  shows "fst (for_each f xs s) \<noteq> None"
  using assms(1)
proof (induction xs arbitrary: s)
  case Nil
  then show ?case by simp
next
  case (Cons y ys)
  show ?case
  proof (cases "f y s")
    case (Pair r s1)
    show ?thesis
    proof (cases r)
      case None
      then have "x \<noteq> y" using assms(2)[of s] Pair by auto
      then have "x \<in> set ys" using Cons.prems by simp
      then show ?thesis using Cons.IH[of s1] Pair None by (simp add: seq_def)
    next
      case (Some e)
      then show ?thesis using Pair by (simp add: seq_def)
    qed
  qed
qed

lemma for_each_error_kind:
  assumes "for_each f xs s = (Some e, s')"
    and "\<And>x a e' b. f x a = (Some e', b) \<Longrightarrow> e' = e0"
  shows "e = e0"
  using assms
proof (induction xs arbitrary: s)
  case Nil
  then show ?case by simp
next
  case (Cons x xs)
  from Cons.prems(1) have "seq (f x) (for_each f xs) s = (Some e, s')" by simp
  then show ?case
  proof (cases rule: seq_cases)
    case (first e1)
    then show ?thesis using Cons.prems(2)[of x s e s'] by simp
  next
    case (second s1)
    then show ?thesis using Cons.IH[OF second(2)] Cons.prems(2) by blast
  qed
qed

lemma point_cloud_of_return_lengths:
  assumes "point_cloud_of_return ext flt fp tp c t = Inr (pts, ins)"
  shows "length pts = length ins"
  using point_cloud_of_return_Inr[OF assms] by auto

lemma balanced_empty: "balanced empty_ret"
  by (simp add: balanced_def empty_ret_def)

lemma balanced_append:
  "balanced ret \<Longrightarrow> length pts = length ins \<Longrightarrow> balanced (ret_append k pts ins ret)"
  by (cases k) (auto simp: balanced_def ret_append_def)

lemma convert_return_balanced:
  assumes "balanced ret" and "convert_return ext flt fr fp tp c ri ret = Inr ret'"
  shows "balanced ret'"
proof -
  from assms(2) obtain t pts ins where
    "point_cloud_of_return ext flt fp tp c t = Inr (pts, ins)"
    "ret' = ret_append (lc_name c, ri) pts ins ret"
    by (auto simp: convert_return_def bindE_Inr_iff)
  then show ?thesis
    using assms(1) point_cloud_of_return_lengths balanced_append by blast
qed

lemma convert_balanced:
  assumes "convert_range_image_to_point_cloud ext flt fr ris = Inr ret"
  shows "balanced ret"
proof -
  from assms obtain fp tp where
    f: "foldE (\<lambda>c. foldE (convert_return ext flt fr fp tp c) ris)
          (sort_key (\<lambda>c. laser_id (lc_name c)) (laser_calibrations fr)) empty_ret = Inr ret"
    by (auto simp: convert_range_image_to_point_cloud_def Let_def bindE_Inr_iff)
  have inner: "balanced b"
    if "balanced a" "foldE (convert_return ext flt fr fp tp c) ris a = Inr b" for c a b
    using that(2,1) by (rule foldE_invariant) (rule convert_return_balanced)
  show ?thesis
    using f balanced_empty by (rule foldE_invariant) (rule inner)
qed

lemma balanced_concat:
  assumes "map length xs = map length ys"
  shows "length (concat xs) = length (concat ys)"
  using assms by (simp add: length_concat)

lemma balanced_entries:
  assumes "balanced ret"
  shows "length (concat (points_of ret (l, 0) @ points_of ret (l, 1)))
         = length (concat (intensity_of ret (l, 0) @ intensity_of ret (l, 1)))"
    and "points_of ret (l, 0) @ points_of ret (l, 1) = []
         \<longleftrightarrow> intensity_of ret (l, 0) @ intensity_of ret (l, 1) = []"
proof -
  have m: "map length (points_of ret (l, 0) @ points_of ret (l, 1))
         = map length (intensity_of ret (l, 0) @ intensity_of ret (l, 1))"
    using assms by (simp add: balanced_def)
  show "length (concat (points_of ret (l, 0) @ points_of ret (l, 1)))
         = length (concat (intensity_of ret (l, 0) @ intensity_of ret (l, 1)))"
    using m by (rule balanced_concat)
  show "points_of ret (l, 0) @ points_of ret (l, 1) = []
         \<longleftrightarrow> intensity_of ret (l, 0) @ intensity_of ret (l, 1) = []"
    using m by (metis map_is_Nil_conv)
qed

lemma column_stack_columns:
  assumes "length points = length intensity"
  shows "\<exists>rows. column_stack points intensity = Inr rows
           \<and> map (\<lambda>(x, y, z, i). (x, y, z)) rows = points
           \<and> map (\<lambda>(x, y, z, i). i) rows = intensity
           \<and> length rows = length points"
proof -
  have "map (\<lambda>(x, y, z, i). (x, y, z)) (map2 (\<lambda>(x, y, z) i. (x, y, z, i)) points intensity) = points"
    using assms by (induction points intensity rule: list_induct2) auto
  moreover have "map (\<lambda>(x, y, z, i). i) (map2 (\<lambda>(x, y, z) i. (x, y, z, i)) points intensity) = intensity"
    using assms by (induction points intensity rule: list_induct2) auto
  ultimately show ?thesis using assms by (simp add: column_stack_def)
qed

lemma assemble_cloud_error:
  "assemble_cloud ext cfg ret l = Inl e \<Longrightarrow> e = ValueError"
  by (auto simp: assemble_cloud_def bindE_Inl_iff np_concatenate_def column_stack_def
           split: if_splits)

lemma assemble_cloud_missing:
  assumes "points_of ret (l, 0) = []" and "points_of ret (l, 1) = []"
  shows "assemble_cloud ext cfg ret l = Inl ValueError"
  using assms by (simp add: assemble_cloud_def np_concatenate_def bindE_def)

text \<open>
  Claim C6. For a sensor that has entries in the result dict of a frame, the assembler
  builds one array of rows (x, y, z, intensity): its first three columns are the
  first-return points followed by the second-return points, its fourth column holds the
  intensities in the same order (each passed through \<open>np.tanh\<close> when normalization is
  on), the number of rows is the number of points and the number of intensities, and the
  array is written as one point cloud message on the sensor's topic.
\<close>

theorem cloud_assembly:
  assumes "convert_range_image_to_point_cloud ext flt fr ris = Inr ret"
    and "points_of ret (lidar_id, 0) @ points_of ret (lidar_id, 1) \<noteq> []"
  shows "\<exists>rows.
           assemble_cloud ext cfg ret lidar_id = Inr rows
         \<and> map (\<lambda>(x, y, z, i). (x, y, z)) rows
             = concat (points_of ret (lidar_id, 0)) @ concat (points_of ret (lidar_id, 1))
         \<and> map (\<lambda>(x, y, z, i). i) rows
             = map (if NORMALIZE_INTENSITY cfg then np_tanh ext else (\<lambda>v. v))
                 (concat (intensity_of ret (lidar_id, 0)) @ concat (intensity_of ret (lidar_id, 1)))
         \<and> length rows
             = length (concat (points_of ret (lidar_id, 0)) @ concat (points_of ret (lidar_id, 1)))
         \<and> length rows
             = length (concat (intensity_of ret (lidar_id, 0))
                        @ concat (intensity_of ret (lidar_id, 1)))
         \<and> write_sensor_cloud ext cfg ret timestamp (lidar_id, lidar_name) s
             = (None, bag_write (''/lidar/'' @ lidar_name @ ''/pointcloud'')
                        (PointCloud2 timestamp ''base_link'' [''x'', ''y'', ''z'', ''intensity''] rows)
                        timestamp s)"
proof -
  let ?P = "points_of ret (lidar_id, 0) @ points_of ret (lidar_id, 1)"
  let ?I = "intensity_of ret (lidar_id, 0) @ intensity_of ret (lidar_id, 1)"
  let ?f = "if NORMALIZE_INTENSITY cfg then np_tanh ext else (\<lambda>v. v)"
  have b: "balanced ret" using assms(1) by (rule convert_balanced)
  have len: "length (concat ?P) = length (concat ?I)"
    using balanced_entries(1)[OF b] .
  have ne: "?I \<noteq> []"
    using balanced_entries(2)[OF b, of lidar_id] assms(2) by blast
  have "length (concat ?P) = length (map ?f (concat ?I))" using len by simp
  from column_stack_columns[OF this] obtain rows where
    rows: "column_stack (concat ?P) (map ?f (concat ?I)) = Inr rows"
      "map (\<lambda>(x, y, z, i). (x, y, z)) rows = concat ?P"
      "map (\<lambda>(x, y, z, i). i) rows = map ?f (concat ?I)"
      "length rows = length (concat ?P)"
    by blast
  have a: "assemble_cloud ext cfg ret lidar_id = Inr rows"
    using rows(1) assms(2) ne
    by (cases "NORMALIZE_INTENSITY cfg") (simp_all add: assemble_cloud_def np_concatenate_def bindE_def)
  have w: "write_sensor_cloud ext cfg ret timestamp (lidar_id, lidar_name) s
             = (None, bag_write (''/lidar/'' @ lidar_name @ ''/pointcloud'')
                        (PointCloud2 timestamp ''base_link'' [''x'', ''y'', ''z'', ''intensity''] rows)
                        timestamp s)"
    by (simp add: write_sensor_cloud_def a write_points_to_bag_def)
  show ?thesis
    using a rows(2,3,4) len w by (intro exI[of _ rows]) simp
qed

lemma reshape_identity16: "reshape_4_4 identity16 = Inr identity_4_4"
  by (simp add: reshape_4_4_def identity16_def identity_4_4_def)

lemma sample_top_pose_tensor:
  "(case range_image_top_pose (sample_frame ts ccs ims) of
      None \<Rightarrow> Inl AttributeError
    | Some grid \<Rightarrow> Inr (top_pose_tensor sample_ext grid))
   = Inr identity_grid"
  by (simp add: top_pose_tensor_def sample_frame_def sample_ext_def identity_4_4_def
        identity_grid_def)

lemma sample_top_shapes:
  "shapes_agree (extract_args sample_ext fp identity_grid (sample_laser L_TOP [1, 2])
     extr sample_image)"
  "shapes_agree (extract_args sample_ext fp identity_grid (sample_laser L_TOP [1, 2])
     extr sample_image2)"
  unfolding shapes_agree_args explicit_inclinations
  by (simp_all add: sample_shapes identity_grid_def)

lemma where_sample2_unfiltered:
  "tf_where (range_image_mask False sample_image2) = [(0, 1)]"
  by (simp add: tf_where_def range_image_mask_def sample_image2_def px_def)

lemma sample_top_call:
  "extract_args sample_ext fp tp (sample_laser L_TOP [1, 2]) extr t =
     \<lparr> ec_range_image = map (map ch_range) t, ec_extrinsic = extr,
       ec_inclination = [2, 1], ec_pixel_pose = Some tp, ec_frame_pose = Some fp \<rparr>"
  by (simp add: extract_args_def resolved_inclinations_def sample_laser_def)

lemma sample_top_cloud:
  "point_cloud_of_return sample_ext False identity_4_4 identity_grid
     (sample_laser L_TOP [1, 2]) sample_image
   = Inr ([(10, 0, 0), (3, 0, 0)], [7, 9])"
  unfolding point_cloud_of_return_success[OF sample_extrinsic sample_top_shapes(1) sample_extract]
    where_sample_unfiltered sample_top_call
  by (simp add: sample_image_def px_def identity_4_4_def identity_grid_def)

lemma sample_top_cloud2:
  "point_cloud_of_return sample_ext False identity_4_4 identity_grid
     (sample_laser L_TOP [1, 2]) sample_image2
   = Inr ([(4, 0, 0)], [6])"
  unfolding point_cloud_of_return_success[OF sample_extrinsic sample_top_shapes(2) sample_extract]
    where_sample2_unfiltered sample_top_call
  by (simp add: sample_image2_def px_def identity_4_4_def identity_grid_def)

lemma sample_lookup:
  "lookup_range_image (sample_frame ts ccs ims) L_TOP 0 = Inr sample_image"
  "lookup_range_image (sample_frame ts ccs ims) L_TOP (Suc 0) = Inr sample_image2"
  by (simp_all add: lookup_range_image_def sample_frame_def)

lemma sample_convert:
  "convert_range_image_to_point_cloud sample_ext False (sample_frame ts ccs ims) [0, 1]
   = Inr sample_ret"
proof -
  have c: "laser_calibrations (sample_frame ts ccs ims) = [sample_laser L_TOP [1, 2]]"
    and p: "pose_transform (sample_frame ts ccs ims) = identity16"
    by (simp_all add: sample_frame_def)
  have n: "lc_name (sample_laser L_TOP [1, 2]) = L_TOP"
    by (simp add: sample_laser_def)
  show ?thesis
    unfolding convert_range_image_to_point_cloud_def c p reshape_identity16 sample_top_pose_tensor
    by (simp add: bindE_def convert_return_def n sample_lookup sample_top_cloud sample_top_cloud2
          sample_ret_def)
qed

lemma sample_ret_entries:
  "points_of sample_ret (L_TOP, 0) = [[(10, 0, 0), (3, 0, 0)]]"
  "points_of sample_ret (L_TOP, 1) = [[(4, 0, 0)]]"
  "intensity_of sample_ret (L_TOP, 0) = [[7, 9]]"
  "intensity_of sample_ret (L_TOP, 1) = [[6]]"
  "points_of sample_ret (L_TOP, Suc 0) = [[(4, 0, 0)]]"
  "intensity_of sample_ret (L_TOP, Suc 0) = [[6]]"
  by (simp_all add: sample_ret_def ret_append_def empty_ret_def)

text \<open>The sample frame: three rows, two from the first return and one from the second.\<close>

theorem cloud_assembly_witness:
  "convert_range_image_to_point_cloud sample_ext False (sample_frame 1 [] []) [0, 1] = Inr sample_ret
   \<and> points_of sample_ret (L_TOP, 0) @ points_of sample_ret (L_TOP, 1) \<noteq> []
   \<and> assemble_cloud sample_ext default_config sample_ret L_TOP
       = Inr [(10, 0, 0, 7 / 8), (3, 0, 0, 9 / 10), (4, 0, 0, 6 / 7)]"
proof -
  have h1: "convert_range_image_to_point_cloud sample_ext False (sample_frame 1 [] []) [0, 1]
            = Inr sample_ret"
    by (rule sample_convert)
  have h2: "points_of sample_ret (L_TOP, 0) @ points_of sample_ret (L_TOP, 1) \<noteq> []"
    by (simp add: sample_ret_entries)
  obtain rows where r: "assemble_cloud sample_ext default_config sample_ret L_TOP = Inr rows"
    and p: "map (\<lambda>(x, y, z, i). (x, y, z)) rows
             = concat (points_of sample_ret (L_TOP, 0)) @ concat (points_of sample_ret (L_TOP, 1))"
    and i: "map (\<lambda>(x, y, z, i). i) rows
             = map (if NORMALIZE_INTENSITY default_config then np_tanh sample_ext else (\<lambda>v. v))
                 (concat (intensity_of sample_ret (L_TOP, 0))
                   @ concat (intensity_of sample_ret (L_TOP, 1)))"
    using cloud_assembly[OF h1 h2, of default_config 0 "''top''" init_state] by blast
  have "assemble_cloud sample_ext default_config sample_ret L_TOP
       = Inr [(10, 0, 0, 7 / 8), (3, 0, 0, 9 / 10), (4, 0, 0, 6 / 7)]"
    by (simp add: assemble_cloud_def sample_ret_entries np_concatenate_def bindE_def
          column_stack_def default_config_def sample_ext_def)
  with h1 h2 show ?thesis by simp
qed

lemma seq_fst_None:
  assumes "fst (seq f g s) = None"
  shows "fst (f s) = None \<and> fst (g (snd (f s))) = None"
  using assms by (cases "f s") (auto simp: seq_def split: option.splits)

lemma write_sensor_cloud_error:
  "write_sensor_cloud ext cfg ret ts sensor a = (Some e, b) \<Longrightarrow> e = ValueError"
  by (cases "assemble_cloud ext cfg ret (fst sensor)")
     (auto simp: write_sensor_cloud_def dest: assemble_cloud_error)

lemma write_point_cloud_fails_in_frame:
  assumes "\<And>a. fst (write_point_cloud ext cfg fr (time_from_sec ext (timestamp_micros fr)) a) \<noteq> None"
  shows "fst (convert_frame ext cfg fr s) \<noteq> None"
proof
  assume "fst (convert_frame ext cfg fr s) = None"
  then have "fst (seq (write_tf_static ext fr (time_from_sec ext (timestamp_micros fr)))
                (seq (write_point_cloud ext cfg fr (time_from_sec ext (timestamp_micros fr)))
                (seq (write_image ext fr (time_from_sec ext (timestamp_micros fr)))
                     (write_camera_info fr (time_from_sec ext (timestamp_micros fr)))))
                (snd (write_odom ext fr (time_from_sec ext (timestamp_micros fr)) s))) = None"
    by (auto simp: convert_frame_def write_frame_def split: if_splits dest: seq_fst_None)
  then have "\<exists>a. fst (seq (write_point_cloud ext cfg fr (time_from_sec ext (timestamp_micros fr)))
                (seq (write_image ext fr (time_from_sec ext (timestamp_micros fr)))
                     (write_camera_info fr (time_from_sec ext (timestamp_micros fr)))) a) = None"
    by (blast dest: seq_fst_None)
  then have "\<exists>a. fst (write_point_cloud ext cfg fr (time_from_sec ext (timestamp_micros fr)) a) = None"
    by (blast dest: seq_fst_None)
  then show False using assms by blast
qed

lemma convert_tfrecord2bag_fst:
  "fst (convert_tfrecord2bag ext cfg u s)
   = fst (for_each (convert_frame ext cfg) (dataset u) (s\<lparr>bag := []\<rparr>))"
  by (cases "for_each (convert_frame ext cfg) (dataset u) (s\<lparr>bag := []\<rparr>)")
     (simp add: convert_tfrecord2bag_def)

text \<open>
  Claim C8. If a selected sensor has no entry in the result dict of a frame for either
  return index, the concatenation fails with \<open>ValueError\<close> (the condition the
  specification names InvalidSensorData): nothing is written for the sensor, the point
  cloud writer raises, the conversion of the frame does not complete, and neither does the
  conversion of a unit that holds the frame.
\<close>

theorem missing_sensor_aborts:
  assumes "convert_range_image_to_point_cloud ext (FILTER_NO_LABEL_ZONE_POINTS cfg) fr [0, 1]
           = Inr ret"
    and "(lidar_id, lidar_name) \<in> set (SELECTED_LIDAR_SENSOR cfg)"
    and "points_of ret (lidar_id, 0) = []" and "points_of ret (lidar_id, 1) = []"
  shows "assemble_cloud ext cfg ret lidar_id = Inl ValueError
       \<and> write_sensor_cloud ext cfg ret ts (lidar_id, lidar_name) s = (Some ValueError, s)
       \<and> fst (write_point_cloud ext cfg fr ts s) = Some ValueError
       \<and> fst (convert_frame ext cfg fr s) \<noteq> None
       \<and> (fr \<in> set (dataset u) \<longrightarrow> fst (convert_tfrecord2bag ext cfg u s) \<noteq> None)"
proof -
  have a: "assemble_cloud ext cfg ret lidar_id = Inl ValueError"
    using assms(3,4) by (rule assemble_cloud_missing)
  have w: "write_sensor_cloud ext cfg ret t (lidar_id, lidar_name) b = (Some ValueError, b)" for t b
    by (simp add: write_sensor_cloud_def a)
  have p: "fst (write_point_cloud ext cfg fr t b) = Some ValueError" for t b
  proof -
    let ?loop = "for_each (write_sensor_cloud ext cfg ret t) (SELECTED_LIDAR_SENSOR cfg) b"
    have "fst ?loop \<noteq> None"
      using assms(2) by (rule for_each_fails) (simp add: w)
    then obtain e b' where l: "?loop = (Some e, b')"
      by (cases ?loop) auto
    then have "e = ValueError"
      by (rule for_each_error_kind) (rule write_sensor_cloud_error)
    then show ?thesis
      using l unfolding write_point_cloud_def assms(1) by simp
  qed
  have f: "fst (convert_frame ext cfg fr b) \<noteq> None" for b
    by (rule write_point_cloud_fails_in_frame) (simp add: p)
  have "fst (convert_tfrecord2bag ext cfg u s) \<noteq> None" if "fr \<in> set (dataset u)"
  proof -
    have "fst (for_each (convert_frame ext cfg) (dataset u) (s\<lparr>bag := []\<rparr>)) \<noteq> None"
      using that by (rule for_each_fails) (rule f)
    then show ?thesis
      by (simp add: convert_tfrecord2bag_fst)
  qed
  then show ?thesis
    using a w p f by blast
qed

lemma convert_without_lasers:
  "convert_range_image_to_point_cloud sample_ext False frame_without_lasers [0, 1] = Inr empty_ret"
proof -
  have c: "laser_calibrations frame_without_lasers = []"
    and p: "pose_transform frame_without_lasers = identity16"
    by (simp_all add: frame_without_lasers_def sample_frame_def)
  have g: "range_image_top_pose frame_without_lasers \<noteq> None"
    by (simp add: frame_without_lasers_def sample_frame_def)
  show ?thesis
    unfolding convert_range_image_to_point_cloud_def c p reshape_identity16
    using g by (auto simp: bindE_def)
qed

text \<open>A frame without laser calibrations, under the default configuration.\<close>

theorem missing_sensor_aborts_witness:
  "convert_range_image_to_point_cloud sample_ext (FILTER_NO_LABEL_ZONE_POINTS default_config)
      frame_without_lasers [0, 1] = Inr empty_ret
   \<and> (L_TOP, ''top'') \<in> set (SELECTED_LIDAR_SENSOR default_config)
   \<and> points_of empty_ret (L_TOP, 0) = [] \<and> points_of empty_ret (L_TOP, 1) = []
   \<and> frame_without_lasers \<in> set (dataset \<lparr> pathname = ''tfrecord/a.tfrecord'',
                                           dataset = [frame_without_lasers] \<rparr>)
   \<and> fst (write_point_cloud sample_ext default_config frame_without_lasers 5 init_state)
       = Some ValueError
   \<and> fst (convert_tfrecord2bag sample_ext default_config
            \<lparr> pathname = ''tfrecord/a.tfrecord'', dataset = [frame_without_lasers] \<rparr>
            init_state) \<noteq> None"
proof -
  have h1: "convert_range_image_to_point_cloud sample_ext
      (FILTER_NO_LABEL_ZONE_POINTS default_config) frame_without_lasers [0, 1] = Inr empty_ret"
    using convert_without_lasers by (simp add: default_config_def)
  have h2: "(L_TOP, ''top'') \<in> set (SELECTED_LIDAR_SENSOR default_config)"
    by (simp add: default_config_def)
  have h3: "points_of empty_ret (L_TOP, 0) = []" and h4: "points_of empty_ret (L_TOP, 1) = []"
    by (simp_all add: empty_ret_def)
  have h5: "frame_without_lasers \<in> set (dataset \<lparr> pathname = ''tfrecord/a.tfrecord'',
                                           dataset = [frame_without_lasers] \<rparr>)"
    by simp
  show ?thesis
    using h1 h2 h3 h4 h5
      missing_sensor_aborts[OF h1 h2 h3 h4, of 5 init_state
         "\<lparr> pathname = ''tfrecord/a.tfrecord'', dataset = [frame_without_lasers] \<rparr>"]
    by blast
qed


subsection \<open>Intensity normalization\<close>












section \<open>The camera writers\<close>

lemma front_name_iff: "camera_frame_name n = ''front'' \<longleftrightarrow> n = C_FRONT"
  by (cases n) simp_all

lemma write_image_of_skip:
  "im_name im \<noteq> C_FRONT \<Longrightarrow> write_image_of ext ts im s = (None, s)"
  by (simp add: write_image_of_def front_name_iff)

lemma write_camera_info_of_skip:
  "cc_name cc \<noteq> C_FRONT \<Longrightarrow> write_camera_info_of ts cc s = (None, s)"
  by (simp add: write_camera_info_of_def front_name_iff)

lemma write_image_of_front:
  assumes "im_name im = C_FRONT" and "write_image_of ext ts im s = (r, s')"
  shows "(r \<noteq> None \<and> s' = s)
       \<or> (r = None \<and> (\<exists>m. s' = bag_write ''/camera/front/image'' m ts s))"
  using assms
  by (auto simp: write_image_of_def Let_def split: option.splits)

lemma write_camera_info_of_front:
  assumes "cc_name cc = C_FRONT" and "write_camera_info_of ts cc s = (r, s')"
  shows "(r \<noteq> None \<and> s' = s)
       \<or> (r = None \<and> (\<exists>m. s' = bag_write ''/camera/front/camera_info'' m ts s))"
  using assms
  by (auto simp: write_camera_info_of_def Let_def split: if_splits)

text \<open>A loop whose body skips some elements and writes one entry on a fixed topic for each other.\<close>

lemma for_each_selected_writes:
  assumes "for_each f xs s = (r, s')"
    and skip: "\<And>x a. \<not> sel x \<Longrightarrow> f x a = (None, a)"
    and hit: "\<And>x a q b. sel x \<Longrightarrow> f x a = (q, b) \<Longrightarrow>
                (q \<noteq> None \<and> b = a) \<or> (q = None \<and> (\<exists>m t. b = bag_write topic m t a))"
  shows "\<exists>new. bag s' = bag s @ new
            \<and> static_tf_message s' = static_tf_message s \<and> files s' = files s
            \<and> (\<forall>e \<in> set new. fst e = topic)
            \<and> length new \<le> length (filter sel xs)
            \<and> (r = None \<longrightarrow> length new = length (filter sel xs))"
  using assms(1)
proof (induction xs arbitrary: s)
  case Nil
  then show ?case by simp
next
  case (Cons x xs)
  from Cons.prems have "seq (f x) (for_each f xs) s = (r, s')" by simp
  then show ?case
  proof (cases rule: seq_cases)
    case (first e)
    then have "sel x" using skip[of x s] by auto
    with first hit[of x s "Some e" s'] have "s' = s" by auto
    then show ?thesis using first by simp
  next
    case (second s1)
    from Cons.IH[OF second(2)] obtain new where new:
      "bag s' = bag s1 @ new" "static_tf_message s' = static_tf_message s1" "files s' = files s1"
      "\<forall>e \<in> set new. fst e = topic" "length new \<le> length (filter sel xs)"
      "r = None \<longrightarrow> length new = length (filter sel xs)"
      by blast
    show ?thesis
    proof (cases "sel x")
      case False
      then have "s1 = s" using skip[of x s] second(1) by simp
      then show ?thesis using new False by auto
    next
      case True
      with second(1) hit[of x s None s1] obtain m t where "s1 = bag_write topic m t s"
        by auto
      then show ?thesis using new True
        by (intro exI[of _ "(topic, m, t) # new"]) (auto simp: bag_write_def)
    qed
  qed
qed

lemma write_image_effect:
  assumes "write_image ext fr ts s = (r, s')"
  shows "\<exists>new. bag s' = bag s @ new
            \<and> static_tf_message s' = static_tf_message s \<and> files s' = files s
            \<and> (\<forall>e \<in> set new. fst e = ''/camera/front/image'')
            \<and> length new \<le> length (front_images fr)
            \<and> (r = None \<longrightarrow> length new = length (front_images fr))"
  unfolding front_images_def
  using assms[unfolded write_image_def]
proof (rule for_each_selected_writes)
  show "write_image_of ext ts x a = (None, a)" if "\<not> im_name x = C_FRONT" for x a
    using that by (rule write_image_of_skip)
  show "(q \<noteq> None \<and> b = a) \<or> (q = None \<and> (\<exists>m t. b = bag_write ''/camera/front/image'' m t a))"
    if "im_name x = C_FRONT" "write_image_of ext ts x a = (q, b)" for x a q b
    using write_image_of_front[OF that] by blast
qed

lemma write_camera_info_effect:
  assumes "write_camera_info fr ts s = (r, s')"
  shows "\<exists>new. bag s' = bag s @ new
            \<and> static_tf_message s' = static_tf_message s \<and> files s' = files s
            \<and> (\<forall>e \<in> set new. fst e = ''/camera/front/camera_info'')
            \<and> length new \<le> length (front_calibrations fr)
            \<and> (r = None \<longrightarrow> length new = length (front_calibrations fr))"
  unfolding front_calibrations_def
  using assms[unfolded write_camera_info_def]
proof (rule for_each_selected_writes)
  show "write_camera_info_of ts x a = (None, a)" if "\<not> cc_name x = C_FRONT" for x a
    using that by (rule write_camera_info_of_skip)
  show "(q \<noteq> None \<and> b = a)
        \<or> (q = None \<and> (\<exists>m t. b = bag_write ''/camera/front/camera_info'' m t a))"
    if "cc_name x = C_FRONT" "write_camera_info_of ts x a = (q, b)" for x a q b
    using write_camera_info_of_front[OF that] by blast
qed

lemma static_transforms_front:
  assumes "static_transforms ext ccs = Inr tfs"
  shows "length tfs = length (filter (\<lambda>cc. cc_name cc = C_FRONT) ccs)
       \<and> (\<forall>t \<in> set tfs. ts_child_frame_id t = ''front'' \<and> ts_frame_id t = ''base_link'')"
  using assms
proof (induction ccs arbitrary: tfs)
  case Nil
  then show ?case by simp
next
  case (Cons cc ccs)
  show ?case
  proof (cases "cc_name cc = C_FRONT")
    case True
    with Cons.prems obtain m rest where
      "static_transforms ext ccs = Inr rest"
      "tfs = to_transform ext ''base_link'' ''front'' 0 m # rest"
      by (auto simp: bindE_Inr_iff)
    then show ?thesis using Cons.IH[of rest] True by (simp add: to_transform_def)
  next
    case False
    then show ?thesis using Cons.prems Cons.IH[of tfs] by (simp add: front_name_iff)
  qed
qed

lemma distinct_filter_key:
  assumes "distinct (map f xs)"
  shows "length (filter (\<lambda>x. f x = a) xs) \<le> 1"
  using assms
proof (induction xs)
  case Nil
  then show ?case by simp
next
  case (Cons x xs)
  show ?case
  proof (cases "f x = a")
    case True
    then have "a \<notin> f ` set xs" using Cons.prems by auto
    then have "filter (\<lambda>x. f x = a) xs = []" by (auto simp: filter_empty_conv)
    then show ?thesis using True by simp
  next
    case False
    then show ?thesis using Cons by simp
  qed
qed

text \<open>
  Claim C10, as amended. The image writer, the camera-info writer and the static-transform
  writer each skip every camera whose name is not \<open>front\<close>, and write one message (one
  transform) for every entry named \<open>front\<close>: all image messages of a frame are on the
  topic of the front camera and there are as many as the frame has images named
  \<open>FRONT\<close>, likewise for the camera-info messages and the static transforms and the
  calibrations named \<open>FRONT\<close>. So a frame whose images, and whose calibrations, have
  distinct names yields at most one image message, one camera-info message and one camera
  static transform.
\<close>

theorem only_front_camera_written:
  "(im_name im \<noteq> C_FRONT \<longrightarrow> write_image_of ext ts im s = (None, s))
   \<and> (cc_name cc \<noteq> C_FRONT \<longrightarrow> write_camera_info_of ts cc s = (None, s))
   \<and> (cc_name cc \<noteq> C_FRONT \<longrightarrow> static_transforms ext (cc # ccs) = static_transforms ext ccs)
   \<and> (write_image ext fr ts s = (r, s') \<longrightarrow>
        (\<exists>new. bag s' = bag s @ new
            \<and> (\<forall>e \<in> set new. fst e = ''/camera/front/image'')
            \<and> length new \<le> length (front_images fr)
            \<and> (r = None \<longrightarrow> length new = length (front_images fr))))
   \<and> (write_camera_info fr ts s = (r, s') \<longrightarrow>
        (\<exists>new. bag s' = bag s @ new
            \<and> (\<forall>e \<in> set new. fst e = ''/camera/front/camera_info'')
            \<and> length new \<le> length (front_calibrations fr)
            \<and> (r = None \<longrightarrow> length new = length (front_calibrations fr))))
   \<and> (static_transforms ext (camera_calibrations fr) = Inr tfs \<longrightarrow>
        length tfs = length (front_calibrations fr)
        \<and> (\<forall>t \<in> set tfs. ts_child_frame_id t = ''front''))
   \<and> (distinct (map im_name (images fr)) \<longrightarrow> length (front_images fr) \<le> 1)
   \<and> (distinct (map cc_name (camera_calibrations fr)) \<longrightarrow> length (front_calibrations fr) \<le> 1)"
proof -
  have a: "im_name im \<noteq> C_FRONT \<longrightarrow> write_image_of ext ts im s = (None, s)"
    by (simp add: write_image_of_skip)
  have b: "cc_name cc \<noteq> C_FRONT \<longrightarrow> write_camera_info_of ts cc s = (None, s)"
    by (simp add: write_camera_info_of_skip)
  have c: "cc_name cc \<noteq> C_FRONT \<longrightarrow> static_transforms ext (cc # ccs) = static_transforms ext ccs"
    by (simp add: front_name_iff)
  have d: "write_image ext fr ts s = (r, s') \<longrightarrow>
        (\<exists>new. bag s' = bag s @ new
            \<and> (\<forall>e \<in> set new. fst e = ''/camera/front/image'')
            \<and> length new \<le> length (front_images fr)
            \<and> (r = None \<longrightarrow> length new = length (front_images fr)))"
    using write_image_effect[of ext fr ts s r s'] by blast
  have e: "write_camera_info fr ts s = (r, s') \<longrightarrow>
        (\<exists>new. bag s' = bag s @ new
            \<and> (\<forall>e \<in> set new. fst e = ''/camera/front/camera_info'')
            \<and> length new \<le> length (front_calibrations fr)
            \<and> (r = None \<longrightarrow> length new = length (front_calibrations fr)))"
    using write_camera_info_effect[of fr ts s r s'] by blast
  have f: "static_transforms ext (camera_calibrations fr) = Inr tfs \<longrightarrow>
        length tfs = length (front_calibrations fr)
        \<and> (\<forall>t \<in> set tfs. ts_child_frame_id t = ''front'')"
    using static_transforms_front[of ext "camera_calibrations fr" tfs]
    by (simp add: front_calibrations_def)
  have g: "distinct (map im_name (images fr)) \<longrightarrow> length (front_images fr) \<le> 1"
    unfolding front_images_def by (blast intro: distinct_filter_key)
  have h: "distinct (map cc_name (camera_calibrations fr)) \<longrightarrow> length (front_calibrations fr) \<le> 1"
    unfolding front_calibrations_def by (blast intro: distinct_filter_key)
  show ?thesis
    using a b c d e f g h by (intro conjI)
qed

lemma decode_pgm_pixel:
  "v < 256 \<Longrightarrow> imdecode_rgb sample_ext (pgm_pixel v) = Some (1, 1, [v, v, v])"
  by (simp add: sample_ext_def pgm_pixel_def pgm_header_def nth_append)

text \<open>
  The claim as first stated bounds the image messages of every frame by one. A frame that
  holds two images named \<open>FRONT\<close>, each a graymap of one pixel that the decoder
  accepts, yields two image messages.
\<close>

theorem two_front_images_two_messages:
  "on_topic ''/camera/front/image''
      (bag (snd (write_image sample_ext (sample_frame 1 [] two_front_images) 5 init_state)))
   = [(''/camera/front/image'', Image 5 ''front'' 1 1 ''rgb8'' [0, 0, 0], 5),
      (''/camera/front/image'', Image 5 ''front'' 1 1 ''rgb8'' [255, 255, 255], 5)]"
proof -
  have i: "images (sample_frame 1 [] two_front_images)
           = [\<lparr> im_name = C_FRONT, im_image = pgm_pixel 0 \<rparr>,
              \<lparr> im_name = C_FRONT, im_image = pgm_pixel 255 \<rparr>]"
    by (simp add: sample_frame_def two_front_images_def)
  have w: "write_image_of sample_ext 5 \<lparr> im_name = C_FRONT, im_image = pgm_pixel v \<rparr> a
           = (None, bag_write ''/camera/front/image'' (Image 5 ''front'' 1 1 ''rgb8'' [v, v, v]) 5 a)"
    if "v < 256" for v a
    using that by (simp add: write_image_of_def decode_pgm_pixel)
  show ?thesis
    unfolding write_image_def i
    by (simp add: seq_def w bag_write_def init_state_def on_topic_def)
qed

text \<open>A frame with a front and a side camera.\<close>

theorem only_front_camera_written_witness:
  "im_name \<lparr> im_name = C_SIDE_LEFT, im_image = [4] \<rparr> \<noteq> C_FRONT
   \<and> write_image_of sample_ext 5 \<lparr> im_name = C_SIDE_LEFT, im_image = [4] \<rparr> init_state
       = (None, init_state)
   \<and> cc_name (sample_camera C_SIDE_LEFT) \<noteq> C_FRONT
   \<and> write_camera_info_of 5 (sample_camera C_SIDE_LEFT) init_state = (None, init_state)
   \<and> distinct (map im_name (images camera_frame))
   \<and> length (front_images camera_frame) \<le> 1
   \<and> distinct (map cc_name (camera_calibrations camera_frame))
   \<and> length (front_calibrations camera_frame) \<le> 1"
proof -
  have h: "im_name \<lparr> im_name = C_SIDE_LEFT, im_image = [4] \<rparr> \<noteq> C_FRONT"
    "cc_name (sample_camera C_SIDE_LEFT) \<noteq> C_FRONT"
    "distinct (map im_name (images camera_frame))"
    "distinct (map cc_name (camera_calibrations camera_frame))"
    by (simp_all add: camera_frame_def sample_frame_def sample_camera_def)
  show ?thesis
    using h only_front_camera_written[where im = "\<lparr> im_name = C_SIDE_LEFT, im_image = [4] \<rparr>" and ext = sample_ext
               and ts = 5 and s = init_state and cc = "sample_camera C_SIDE_LEFT"
               and fr = camera_frame]
    by blast
qed


section \<open>The static transform, frames and units\<close>

lemma tf_view_bag_write:
  "topic \<noteq> ''/tf_static'' \<Longrightarrow> tf_view (bag_write topic m t s) = tf_view s"
  by (simp add: tf_view_def bag_write_def on_topic_def)

lemma tf_view_appended:
  assumes "bag s' = bag s @ new" and "static_tf_message s' = static_tf_message s"
    and "\<forall>e \<in> set new. fst e = topic" and "topic \<noteq> ''/tf_static''"
  shows "tf_view s' = tf_view s"
proof -
  have "filter (\<lambda>entry. fst entry = ''/tf_static'') new = []"
    using assms(3,4) by (auto simp: filter_empty_conv)
  then show ?thesis using assms(1,2) by (simp add: tf_view_def on_topic_def)
qed

lemma write_odom_tf_view:
  assumes "write_odom ext fr ts s = (r, s')"
  shows "tf_view s' = tf_view s"
  using assms
  by (cases "reshape_4_4 (pose_transform fr)")
     (auto simp: write_odom_def Let_def tf_view_bag_write)

lemma write_sensor_cloud_tf_view:
  assumes "write_sensor_cloud ext cfg ret ts sensor s = (r, s')"
  shows "tf_view s' = tf_view s"
  using assms
  by (cases "assemble_cloud ext cfg ret (fst sensor)")
     (auto simp: write_sensor_cloud_def write_points_to_bag_def tf_view_bag_write)

lemma write_point_cloud_tf_view:
  assumes "write_point_cloud ext cfg fr ts s = (r, s')"
  shows "tf_view s' = tf_view s"
proof (cases "convert_range_image_to_point_cloud ext (FILTER_NO_LABEL_ZONE_POINTS cfg) fr [0, 1]")
  case (Inl e)
  then show ?thesis using assms unfolding write_point_cloud_def by simp
next
  case (Inr ret)
  then have "for_each (write_sensor_cloud ext cfg ret ts) (SELECTED_LIDAR_SENSOR cfg) s = (r, s')"
    using assms unfolding write_point_cloud_def by simp
  then show ?thesis
    by (rule for_each_invariant[where P = "\<lambda>a. tf_view a = tf_view s"])
       (simp_all add: write_sensor_cloud_tf_view)
qed

lemma write_image_tf_view:
  assumes "write_image ext fr ts s = (r, s')"
  shows "tf_view s' = tf_view s"
proof -
  from write_image_effect[OF assms] obtain new where
    "bag s' = bag s @ new" "static_tf_message s' = static_tf_message s"
    "\<forall>e \<in> set new. fst e = ''/camera/front/image''"
    by blast
  then show ?thesis by (rule tf_view_appended) simp
qed

lemma write_camera_info_tf_view:
  assumes "write_camera_info fr ts s = (r, s')"
  shows "tf_view s' = tf_view s"
proof -
  from write_camera_info_effect[OF assms] obtain new where
    "bag s' = bag s @ new" "static_tf_message s' = static_tf_message s"
    "\<forall>e \<in> set new. fst e = ''/camera/front/camera_info''"
    by blast
  then show ?thesis by (rule tf_view_appended) simp
qed

lemma seq_preserves:
  assumes "seq f g s = (r, s')"
    and "\<And>a q b. f a = (q, b) \<Longrightarrow> V b = V a"
    and "\<And>a q b. g a = (q, b) \<Longrightarrow> V b = V a"
  shows "V s' = V s"
  using assms(1)
proof (cases rule: seq_cases)
  case (first e)
  then show ?thesis using assms(2) by blast
next
  case (second s1)
  then show ?thesis using assms(2)[of s None s1] assms(3)[of s1 r s'] by simp
qed

lemma after_tf_static_tf_view:
  assumes "seq (write_point_cloud ext cfg fr ts)
             (seq (write_image ext fr ts) (write_camera_info fr ts)) s = (r, s')"
  shows "tf_view s' = tf_view s"
  using assms
proof (rule seq_preserves)
  show "tf_view b = tf_view a" if "write_point_cloud ext cfg fr ts a = (q, b)" for a q b
    using that by (rule write_point_cloud_tf_view)
  show "tf_view b = tf_view a"
    if "seq (write_image ext fr ts) (write_camera_info fr ts) a = (q, b)" for a q b
    using that
  proof (rule seq_preserves)
    show "tf_view y = tf_view x" if "write_image ext fr ts x = (p, y)" for x p y
      using that by (rule write_image_tf_view)
    show "tf_view y = tf_view x" if "write_camera_info fr ts x = (p, y)" for x p y
      using that by (rule write_camera_info_tf_view)
  qed
qed

lemma write_tf_static_cases:
  assumes "write_tf_static ext fr ts s = (r, s')"
  shows "(\<exists>e. static_transforms ext (camera_calibrations fr) = Inl e \<and> r = Some e \<and> s' = s)
       \<or> (\<exists>m. static_transforms ext (camera_calibrations fr) = Inr m
              \<and> static_tf_message s = None \<and> r = None
              \<and> s' = (bag_write ''/tf_static'' (TFMessage m) ts s)\<lparr>static_tf_message := Some m\<rparr>)
       \<or> (\<exists>m. static_transforms ext (camera_calibrations fr) = Inr m
              \<and> static_tf_message s = Some m \<and> r = None \<and> s' = s)
       \<or> (\<exists>m m'. static_transforms ext (camera_calibrations fr) = Inr m'
              \<and> static_tf_message s = Some m \<and> m \<noteq> m' \<and> r = Some AssertionError \<and> s' = s)"
  using assms
  by (cases "static_transforms ext (camera_calibrations fr)"; cases "static_tf_message s")
     (auto simp: write_tf_static_def split: if_splits)

lemma tf_view_written:
  "static_tf_message s = None \<Longrightarrow>
   tf_view ((bag_write ''/tf_static'' (TFMessage m) ts s)\<lparr>static_tf_message := Some m\<rparr>)
   = (Some m, snd (tf_view s) @ [(''/tf_static'', TFMessage m, ts)])"
  by (simp add: tf_view_def bag_write_def on_topic_def)

lemma frame_with_snapshot:
  assumes "static_tf_message s = Some m" and "convert_frame ext cfg fr s = (r, s')"
  shows "tf_view s' = tf_view s"
proof (cases "timestamp_micros fr < 0")
  case True
  then show ?thesis using assms(2) by (auto simp: convert_frame_def)
next
  case False
  let ?ts = "time_from_sec ext (timestamp_micros fr)"
  let ?rest = "seq (write_point_cloud ext cfg fr ?ts)
                 (seq (write_image ext fr ?ts) (write_camera_info fr ?ts))"
  from assms(2) False
  have "seq (write_odom ext fr ?ts) (seq (write_tf_static ext fr ?ts) ?rest) s = (r, s')"
    by (simp add: convert_frame_def write_frame_def)
  then show ?thesis
  proof (cases rule: seq_cases)
    case (first e)
    then show ?thesis by (simp add: write_odom_tf_view)
  next
    case (second s1)
    have v1: "tf_view s1 = tf_view s" using second(1) by (rule write_odom_tf_view)
    then have st1: "static_tf_message s1 = Some m" using assms(1) by (simp add: tf_view_def)
    from second(2) show ?thesis
    proof (cases rule: seq_cases)
      case (first e)
      then have "s' = s1" using write_tf_static_cases[of ext fr ?ts s1 "Some e" s'] st1 by auto
      then show ?thesis using v1 by simp
    next
      case (second s2)
      then have "s2 = s1" using write_tf_static_cases[of ext fr ?ts s1 None s2] st1 by auto
      then show ?thesis using second(2) v1 by (simp add: after_tf_static_tf_view)
    qed
  qed
qed

lemma frame_from_none:
  assumes "static_tf_message s = None" and "convert_frame ext cfg fr s = (r, s')"
  shows "(r \<noteq> None \<and> tf_view s' = tf_view s)
       \<or> (\<exists>m. static_transforms ext (camera_calibrations fr) = Inr m
              \<and> tf_view s' = (Some m, snd (tf_view s)
                    @ [(''/tf_static'', TFMessage m, time_from_sec ext (timestamp_micros fr))]))"
proof (cases "timestamp_micros fr < 0")
  case True
  then show ?thesis using assms(2) by (auto simp: convert_frame_def)
next
  case False
  let ?ts = "time_from_sec ext (timestamp_micros fr)"
  let ?rest = "seq (write_point_cloud ext cfg fr ?ts)
                 (seq (write_image ext fr ?ts) (write_camera_info fr ?ts))"
  from assms(2) False
  have "seq (write_odom ext fr ?ts) (seq (write_tf_static ext fr ?ts) ?rest) s = (r, s')"
    by (simp add: convert_frame_def write_frame_def)
  then show ?thesis
  proof (cases rule: seq_cases)
    case (first e)
    then show ?thesis by (simp add: write_odom_tf_view)
  next
    case (second s1)
    have v1: "tf_view s1 = tf_view s" using second(1) by (rule write_odom_tf_view)
    then have st1: "static_tf_message s1 = None" using assms(1) by (simp add: tf_view_def)
    from second(2) show ?thesis
    proof (cases rule: seq_cases)
      case (first e)
      then have "s' = s1" using write_tf_static_cases[of ext fr ?ts s1 "Some e" s'] st1 by auto
      then show ?thesis using v1 first by simp
    next
      case (second s2)
      then obtain m where m: "static_transforms ext (camera_calibrations fr) = Inr m"
        "s2 = (bag_write ''/tf_static'' (TFMessage m) ?ts s1)\<lparr>static_tf_message := Some m\<rparr>"
        using write_tf_static_cases[of ext fr ?ts s1 None s2] st1 by auto
      have "tf_view s' = tf_view s2" using second(2) by (rule after_tf_static_tf_view)
      also have "\<dots> = (Some m, snd (tf_view s1) @ [(''/tf_static'', TFMessage m, ?ts)])"
        unfolding m(2) using st1 by (rule tf_view_written)
      finally show ?thesis using m(1) v1 by simp
    qed
  qed
qed

lemma frames_with_snapshot:
  assumes "for_each (convert_frame ext cfg) frs s = (r, s')" and "static_tf_message s = Some m"
  shows "tf_view s' = tf_view s"
  using assms(1)
proof (rule for_each_invariant[where P = "\<lambda>a. tf_view a = tf_view s"])
  show "tf_view s = tf_view s" by simp
  show "tf_view b = tf_view s"
    if "tf_view a = tf_view s" "convert_frame ext cfg x a = (q, b)" for x a q b
  proof -
    have "static_tf_message a = Some m" using that(1) assms(2) by (simp add: tf_view_def)
    then have "tf_view b = tf_view a" using that(2) by (rule frame_with_snapshot)
    then show ?thesis using that(1) by simp
  qed
qed

lemma frames_from_none:
  assumes "for_each (convert_frame ext cfg) (fr # frs) s = (r, s')" and "static_tf_message s = None"
  shows "(r \<noteq> None \<and> tf_view s' = tf_view s)
       \<or> (\<exists>m. static_transforms ext (camera_calibrations fr) = Inr m
              \<and> tf_view s' = (Some m, snd (tf_view s)
                    @ [(''/tf_static'', TFMessage m, time_from_sec ext (timestamp_micros fr))]))"
proof -
  from assms(1) have "seq (convert_frame ext cfg fr) (for_each (convert_frame ext cfg) frs) s = (r, s')"
    by simp
  then show ?thesis
  proof (cases rule: seq_cases)
    case (first e)
    then show ?thesis using frame_from_none[OF assms(2) first(1)] by simp
  next
    case (second s1)
    from frame_from_none[OF assms(2) second(1)] obtain m where
      m: "static_transforms ext (camera_calibrations fr) = Inr m"
         "tf_view s1 = (Some m, snd (tf_view s)
                    @ [(''/tf_static'', TFMessage m, time_from_sec ext (timestamp_micros fr))])"
      by auto
    then have "static_tf_message s1 = Some m" by (simp add: tf_view_def)
    with second(2) have "tf_view s' = tf_view s1" by (rule frames_with_snapshot)
    then show ?thesis using m by simp
  qed
qed

lemma convert_resets:
  assumes "convert ext cfg us s = (None, s1)" and "static_tf_message s = None"
  shows "static_tf_message s1 = None"
  using assms
proof (induction us arbitrary: s)
  case Nil
  then show ?case by (simp add: convert_def)
next
  case (Cons u us)
  from Cons.prems(1) obtain s2 where
    s2: "seq (convert_tfrecord2bag ext cfg u) reset_static_tf_message s = (None, s2)"
        "convert ext cfg us s2 = (None, s1)"
    by (auto simp: convert_def seq_None_iff)
  from s2(1) have "static_tf_message s2 = None"
    by (auto simp: seq_None_iff reset_static_tf_message_def)
  with s2(2) show ?case by (rule Cons.IH)
qed

lemma unit_tf_static:
  assumes "static_tf_message s = None" and "convert_tfrecord2bag ext cfg u s = (r, s')"
  shows "\<exists>b. files s' (bag_filename (pathname u)) = Some b
           \<and> length (on_topic ''/tf_static'' b) \<le> 1
           \<and> (\<forall>fr frs. r = None \<and> dataset u = fr # frs \<longrightarrow>
                 (\<exists>m. static_transforms ext (camera_calibrations fr) = Inr m
                    \<and> static_tf_message s' = Some m
                    \<and> on_topic ''/tf_static'' b =
                        [(''/tf_static'', TFMessage m, time_from_sec ext (timestamp_micros fr))]))"
proof -
  let ?s0 = "s\<lparr>bag := []\<rparr>"
  obtain q e where loop: "for_each (convert_frame ext cfg) (dataset u) ?s0 = (q, e)"
    by (cases "for_each (convert_frame ext cfg) (dataset u) ?s0")
  with assms(2) have r: "r = q"
    and s': "s' = e\<lparr>files := (files e)(bag_filename (pathname u) := Some (bag e))\<rparr>"
    by (simp_all add: convert_tfrecord2bag_def)
  have st0: "static_tf_message ?s0 = None" using assms(1) by simp
  have v0: "tf_view ?s0 = (None, [])" using assms(1) by (simp add: tf_view_def on_topic_def)
  have f: "files s' (bag_filename (pathname u)) = Some (bag e)"
    and st: "static_tf_message s' = static_tf_message e"
    by (simp_all add: s')
  show ?thesis
  proof (cases "dataset u")
    case Nil
    then have "e = ?s0" using loop by simp
    then show ?thesis using f Nil by (simp add: on_topic_def)
  next
    case (Cons fr frs)
    from frames_from_none[OF loop[unfolded Cons] st0]
    consider "q \<noteq> None" "tf_view e = tf_view ?s0"
      | m where "static_transforms ext (camera_calibrations fr) = Inr m"
          "tf_view e = (Some m, snd (tf_view ?s0)
                @ [(''/tf_static'', TFMessage m, time_from_sec ext (timestamp_micros fr))])"
      by blast
    then show ?thesis
    proof cases
      case 1
      then have "on_topic ''/tf_static'' (bag e) = []" using v0 by (simp add: tf_view_def)
      then show ?thesis using f 1(1) r by simp
    next
      case 2
      then have "on_topic ''/tf_static'' (bag e)
                 = [(''/tf_static'', TFMessage m, time_from_sec ext (timestamp_micros fr))]"
        and "static_tf_message e = Some m"
        using v0 by (simp_all add: tf_view_def)
      then show ?thesis using f st 2(1) Cons by simp
    qed
  qed
qed

lemma mismatch_is_failure:
  assumes "static_tf_message a = Some m"
    and "static_transforms ext (camera_calibrations fr) = Inr m'" and "m' \<noteq> m"
  shows "write_tf_static ext fr ts a = (Some AssertionError, a)
       \<and> fst (convert_frame ext cfg fr a) \<noteq> None
       \<and> static_tf_message (snd (convert_frame ext cfg fr a)) = Some m"
proof -
  have w: "write_tf_static ext fr t b = (Some AssertionError, b)"
    if "static_tf_message b = Some m" for t b
    using that assms(2,3) by (auto simp: write_tf_static_def)
  obtain r s' where c: "convert_frame ext cfg fr a = (r, s')"
    by (cases "convert_frame ext cfg fr a")
  have "tf_view s' = tf_view a" using assms(1) c by (rule frame_with_snapshot)
  then have kept: "static_tf_message s' = Some m" using assms(1) by (simp add: tf_view_def)
  have "r \<noteq> None"
  proof
    assume "r = None"
    then have "fst (convert_frame ext cfg fr a) = None" using c by simp
    then have o: "fst (write_odom ext fr (time_from_sec ext (timestamp_micros fr)) a) = None"
      and t: "fst (write_tf_static ext fr (time_from_sec ext (timestamp_micros fr))
                (snd (write_odom ext fr (time_from_sec ext (timestamp_micros fr)) a))) = None"
      by (auto simp: convert_frame_def write_frame_def split: if_splits dest: seq_fst_None)
    have "tf_view (snd (write_odom ext fr (time_from_sec ext (timestamp_micros fr)) a)) = tf_view a"
      by (rule write_odom_tf_view) (rule surjective_pairing)
    then have "static_tf_message (snd (write_odom ext fr (time_from_sec ext (timestamp_micros fr)) a))
               = Some m"
      using assms(1) by (simp add: tf_view_def)
    from w[OF this] t show False by simp
  qed
  then show ?thesis using w[OF assms(1)] c kept by simp
qed

lemma convert_cons:
  assumes "convert_tfrecord2bag ext cfg u s = (None, s1)"
  shows "convert ext cfg (u # us) s = convert ext cfg us (s1\<lparr>static_tf_message := None\<rparr>)"
  using assms by (simp add: convert_def seq_def reset_static_tf_message_def)

lemma convert_after_prefix:
  assumes "convert ext cfg us0 s = (None, s0)" and "convert_tfrecord2bag ext cfg u s0 = (None, s1)"
  shows "convert ext cfg (us0 @ u # us) s = convert ext cfg us (s1\<lparr>static_tf_message := None\<rparr>)"
proof -
  have "convert ext cfg (us0 @ u # us) s = convert ext cfg (u # us) s0"
    using assms(1) by (simp add: convert_def for_each_append)
  then show ?thesis using convert_cons[OF assms(2)] by simp
qed

text \<open>
  Claim C7. A unit is converted from a state without snapshot. Its bag then holds at
  most one message on \<open>/tf_static\<close>; when the unit has frames and is converted without
  error, it holds exactly one, computed from the first frame and written at the first
  frame's time, and that message is the snapshot. In a later frame, a recomputed static
  transform that differs from the snapshot makes \<open>write_tf_static\<close> raise
  \<open>AssertionError\<close> and leave the state as it was, the conversion of the frame fails,
  and the snapshot is still the one of the first frame. The snapshot is reset between
  units: after a unit converted without error, whether it is the first of the list or
  follows a prefix of units converted without error, \<open>convert\<close> goes on with the remaining
  units from the state that unit left with the snapshot set back to \<open>None\<close>, so the next
  unit starts without one; and so does whatever follows the whole list.
\<close>

theorem static_transform_once:
  assumes "static_tf_message s = None"
  shows "(convert_tfrecord2bag ext cfg u s = (r, s') \<longrightarrow>
           (\<exists>b. files s' (bag_filename (pathname u)) = Some b
              \<and> length (on_topic ''/tf_static'' b) \<le> 1
              \<and> (\<forall>fr frs. r = None \<and> dataset u = fr # frs \<longrightarrow>
                    (\<exists>m. static_transforms ext (camera_calibrations fr) = Inr m
                       \<and> static_tf_message s' = Some m
                       \<and> on_topic ''/tf_static'' b =
                           [(''/tf_static'', TFMessage m,
                             time_from_sec ext (timestamp_micros fr))]))))
       \<and> (\<forall>a fr m m' ts.
             static_tf_message a = Some m
             \<and> static_transforms ext (camera_calibrations fr) = Inr m' \<and> m' \<noteq> m \<longrightarrow>
               write_tf_static ext fr ts a = (Some AssertionError, a)
               \<and> fst (convert_frame ext cfg fr a) \<noteq> None
               \<and> static_tf_message (snd (convert_frame ext cfg fr a)) = Some m)
       \<and> (\<forall>us s1. convert ext cfg us s = (None, s1) \<longrightarrow> static_tf_message s1 = None)
       \<and> (\<forall>u0 us s1. convert_tfrecord2bag ext cfg u0 s = (None, s1) \<longrightarrow>
             convert ext cfg (u0 # us) s = convert ext cfg us (s1\<lparr>static_tf_message := None\<rparr>))
       \<and> (\<forall>us0 u0 us s0 s1.
             convert ext cfg us0 s = (None, s0) \<and> convert_tfrecord2bag ext cfg u0 s0 = (None, s1) \<longrightarrow>
             convert ext cfg (us0 @ u0 # us) s
             = convert ext cfg us (s1\<lparr>static_tf_message := None\<rparr>))"
proof -
  note a = unit_tf_static[OF assms, of ext cfg u r s']
  note b = mismatch_is_failure[of _ _ ext _ _ _ cfg]
  note c = convert_resets[of ext cfg _ s _, OF _ assms]
  note d = convert_cons[of ext cfg _ s]
  note e = convert_after_prefix[of ext cfg _ s]
  show ?thesis
    using a b c d e by blast
qed

lemma sample_assemble:
  "assemble_cloud sample_ext default_config sample_ret L_TOP = Inr sample_rows"
  by (simp add: assemble_cloud_def sample_ret_entries np_concatenate_def bindE_def
        column_stack_def default_config_def sample_ext_def sample_rows_def)

lemma write_odom_sample:
  "write_odom sample_ext (sample_frame ts ccs ims) t a
   = (None, bag_write ''/odom'' (Odometry t ''map'' ''base_link'' (0, 0, 0) (0, 0, 0, 1)) t a)"
proof -
  have p: "pose_transform (sample_frame ts ccs ims) = identity16"
    by (simp add: sample_frame_def)
  show ?thesis
    unfolding write_odom_def p reshape_identity16
    by (simp add: to_transform_def sample_ext_def identity_4_4_def)
qed

lemma write_tf_static_sample:
  "write_tf_static sample_ext (sample_frame ts [] ims) t a
   = (case static_tf_message a of
        None \<Rightarrow> (None, (bag_write ''/tf_static'' (TFMessage []) t a)\<lparr>static_tf_message := Some []\<rparr>)
      | Some m \<Rightarrow> if m = [] then (None, a) else (Some AssertionError, a))"
  by (simp add: write_tf_static_def sample_frame_def)

lemma write_point_cloud_sample:
  "write_point_cloud sample_ext default_config (sample_frame ts ccs ims) t a
   = (None, write_points_to_bag t sample_rows ''top'' a)"
proof -
  have f: "FILTER_NO_LABEL_ZONE_POINTS default_config = False"
    and l: "SELECTED_LIDAR_SENSOR default_config = [(L_TOP, ''top'')]"
    by (simp_all add: default_config_def)
  show ?thesis
    unfolding write_point_cloud_def f l sample_convert
    by (simp add: seq_def write_sensor_cloud_def sample_assemble)
qed

lemma write_cameras_sample:
  "write_image sample_ext (sample_frame ts ccs []) t a = (None, a)"
  "write_camera_info (sample_frame ts [] ims) t a = (None, a)"
  by (simp_all add: write_image_def write_camera_info_def sample_frame_def)

lemma sample_timestamp:
  "time_from_sec sample_ext (timestamp_micros (sample_frame ts ccs ims)) = ts * 1000"
  by (simp add: sample_ext_def sample_frame_def)

lemma convert_frame_sample:
  assumes "static_tf_message a = None \<or> static_tf_message a = Some []" and "0 \<le> ts"
  shows "fst (convert_frame sample_ext default_config (sample_frame ts [] []) a) = None
       \<and> static_tf_message (snd (convert_frame sample_ext default_config (sample_frame ts [] []) a))
           = Some []"
proof -
  have t: "\<not> timestamp_micros (sample_frame ts [] []) < 0"
    using assms(2) by (simp add: sample_frame_def)
  show ?thesis
    using assms(1)
    unfolding convert_frame_def write_frame_def sample_timestamp
    by (auto simp: t seq_def write_odom_sample write_tf_static_sample write_point_cloud_sample
          write_cameras_sample bag_write_def write_points_to_bag_def)
qed

lemma sample_bag_filename:
  "bag_filename ''tfrecord/a.tfrecord'' = ''rosbag/a.bag''"
  "bag_filename ''tfrecord/b.tfrecord'' = ''rosbag/b.bag''"
  by (simp_all add: bag_filename_def basename_def)

lemma sample_unit_converts:
  "fst (convert_tfrecord2bag sample_ext default_config sample_unit init_state) = None"
proof -
  let ?s0 = "init_state\<lparr>bag := []\<rparr>"
  let ?c = "convert_frame sample_ext default_config"
  have s0: "static_tf_message ?s0 = None \<or> static_tf_message ?s0 = Some []"
    by (simp add: init_state_def)
  obtain s1 where c1: "?c (sample_frame 1 [] []) ?s0 = (None, s1)"
    and st1: "static_tf_message s1 = Some []"
    using convert_frame_sample[OF s0, of 1]
    by (cases "?c (sample_frame 1 [] []) ?s0") auto
  obtain s2 where c2: "?c (sample_frame 2 [] []) s1 = (None, s2)"
    using convert_frame_sample[of s1 2] st1
    by (cases "?c (sample_frame 2 [] []) s1") auto
  have "for_each ?c (dataset sample_unit) ?s0 = (None, s2)"
    by (simp add: sample_unit_def seq_def c1 c2)
  then show ?thesis by (simp add: convert_tfrecord2bag_fst)
qed

lemma camera_frame_transforms:
  "static_transforms sample_ext (camera_calibrations camera_frame)
   = Inr [to_transform sample_ext ''base_link'' ''front'' 0 (matmul identity_4_4 camera_to_image)]"
proof -
  have c: "camera_calibrations camera_frame = [sample_camera C_FRONT, sample_camera C_SIDE_LEFT]"
    by (simp add: camera_frame_def sample_frame_def)
  have e: "cc_extrinsic (sample_camera n) = identity16" "cc_name (sample_camera n) = n" for n
    by (simp_all add: sample_camera_def)
  show ?thesis
    unfolding c by (simp add: e reshape_identity16 bindE_def)
qed

lemma seq_fst_NoneI:
  assumes "fst (f s) = None" and "fst (g (snd (f s))) = None"
  shows "fst (seq f g s) = None"
  using assms by (cases "f s") (auto simp: seq_def)

lemma front_frame_converts:
  assumes "static_tf_message a = None" and "0 \<le> ts"
  shows "fst (convert_frame sample_ext default_config (sample_frame ts [sample_camera C_FRONT] []) a)
         = None"
proof -
  let ?fr = "sample_frame ts [sample_camera C_FRONT] []"
  have t: "\<not> timestamp_micros ?fr < 0"
    using assms(2) by (simp add: sample_frame_def)
  have c: "camera_calibrations ?fr = [sample_camera C_FRONT]"
    by (simp add: sample_frame_def)
  have e: "cc_extrinsic (sample_camera C_FRONT) = identity16" "cc_name (sample_camera C_FRONT) = C_FRONT"
    "cc_intrinsic (sample_camera C_FRONT) = [1, 2, 3, 4, 5, 6, 7, 8, 9]"
    by (simp_all add: sample_camera_def)
  have tf: "static_transforms sample_ext (camera_calibrations ?fr)
     = Inr [to_transform sample_ext ''base_link'' ''front'' 0 (matmul identity_4_4 camera_to_image)]"
    unfolding c by (simp add: e reshape_identity16 bindE_def)
  have w: "fst (write_tf_static sample_ext ?fr t b) = None" if "static_tf_message b = None" for t b
    using that by (simp add: write_tf_static_def tf)
  have i: "fst (write_camera_info ?fr t b) = None" for t b
    unfolding write_camera_info_def c
    by (simp add: seq_def write_camera_info_of_def e)
  let ?t = "time_from_sec sample_ext (timestamp_micros ?fr)"
  have o: "fst (write_odom sample_ext ?fr ?t a) = None"
    and os: "static_tf_message (snd (write_odom sample_ext ?fr ?t a)) = None"
    using assms(1) by (simp_all add: write_odom_sample bag_write_def)
  have rest: "fst (seq (write_point_cloud sample_ext default_config ?fr ?t)
                 (seq (write_image sample_ext ?fr ?t) (write_camera_info ?fr ?t)) b) = None" for b
    by (intro seq_fst_NoneI) (simp_all add: write_point_cloud_sample write_cameras_sample i)
  have "fst (write_frame sample_ext default_config ?fr ?t a) = None"
    unfolding write_frame_def
    by (intro seq_fst_NoneI o w[OF os] rest)
  then show ?thesis
    using t by (simp add: convert_frame_def)
qed

lemma front_unit_converts:
  "fst (convert_tfrecord2bag sample_ext default_config front_unit init_state) = None"
proof -
  let ?s0 = "init_state\<lparr>bag := []\<rparr>"
  have "static_tf_message ?s0 = None" by (simp add: init_state_def)
  from front_frame_converts[OF this, of 1]
  have "fst (for_each (convert_frame sample_ext default_config) (dataset front_unit) ?s0) = None"
    by (cases "convert_frame sample_ext default_config (sample_frame 1 [sample_camera C_FRONT] []) ?s0")
       (simp add: front_unit_def seq_def)
  then show ?thesis by (simp add: convert_tfrecord2bag_fst)
qed

lemma good_unit_converts_from:
  assumes "static_tf_message a = None"
  shows "fst (convert_tfrecord2bag sample_ext default_config good_unit a) = None"
proof -
  let ?s0 = "a\<lparr>bag := []\<rparr>"
  have "static_tf_message ?s0 = None \<or> static_tf_message ?s0 = Some []"
    using assms by simp
  from convert_frame_sample[OF this, of 2]
  have "fst (for_each (convert_frame sample_ext default_config) (dataset good_unit) ?s0) = None"
    by (cases "convert_frame sample_ext default_config (sample_frame 2 [] []) ?s0")
       (simp add: good_unit_def seq_def)
  then show ?thesis by (simp add: convert_tfrecord2bag_fst)
qed


text \<open>
  The sample unit of two frames; a frame whose static transform differs from the
  snapshot; and a unit with a front camera followed by a unit without cameras, whose
  static transforms differ and which are both converted, the second writing its own.
\<close>

theorem static_transform_once_witness:
  "static_tf_message init_state = None
   \<and> (\<exists>b. files (snd (convert_tfrecord2bag sample_ext default_config sample_unit init_state))
              ''rosbag/a.bag'' = Some b
          \<and> on_topic ''/tf_static'' b = [(''/tf_static'', TFMessage [], 1000)])
   \<and> write_tf_static sample_ext camera_frame 7 (init_state\<lparr>static_tf_message := Some []\<rparr>)
       = (Some AssertionError, init_state\<lparr>static_tf_message := Some []\<rparr>)
   \<and> fst (convert sample_ext default_config [front_unit, good_unit] init_state) = None
   \<and> (\<exists>b. files (snd (convert sample_ext default_config [front_unit, good_unit] init_state))
              ''rosbag/b.bag'' = Some b
          \<and> on_topic ''/tf_static'' b = [(''/tf_static'', TFMessage [], 2000)])
   \<and> static_tf_message (snd (convert sample_ext default_config [front_unit, good_unit]
                               init_state)) = None"
proof -
  let ?res = "convert_tfrecord2bag sample_ext default_config sample_unit init_state"
  let ?a = "init_state\<lparr>static_tf_message := Some []\<rparr>"
  let ?m' = "[to_transform sample_ext ''base_link'' ''front'' 0 (matmul identity_4_4 camera_to_image)]"
  have h: "static_tf_message init_state = None"
    by (simp add: init_state_def)
  have run: "?res = (None, snd ?res)"
    using sample_unit_converts by (cases ?res) simp
  note once = static_transform_once[OF h, of sample_ext default_config sample_unit None "snd ?res"]
  from once run obtain b where b: "files (snd ?res) (bag_filename (pathname sample_unit)) = Some b"
    and first: "\<forall>fr frs. None = (None :: py_error option) \<and> dataset sample_unit = fr # frs \<longrightarrow>
                 (\<exists>m. static_transforms sample_ext (camera_calibrations fr) = Inr m
                    \<and> static_tf_message (snd ?res) = Some m
                    \<and> on_topic ''/tf_static'' b =
                        [(''/tf_static'', TFMessage m,
                          time_from_sec sample_ext (timestamp_micros fr))])"
    by blast
  have "dataset sample_unit = sample_frame 1 [] [] # [sample_frame 2 [] []]"
    by (simp add: sample_unit_def)
  with first obtain m where
    m: "static_transforms sample_ext (camera_calibrations (sample_frame 1 [] [])) = Inr m"
       "on_topic ''/tf_static'' b =
          [(''/tf_static'', TFMessage m,
            time_from_sec sample_ext (timestamp_micros (sample_frame 1 [] [])))]"
    by blast
  from m(1) have "m = []" by (simp add: sample_frame_def)
  with m(2) have t: "on_topic ''/tf_static'' b = [(''/tf_static'', TFMessage [], 1000)]"
    by (simp add: sample_timestamp)
  have n: "bag_filename (pathname sample_unit) = ''rosbag/a.bag''"
    by (simp add: sample_unit_def sample_bag_filename)
  have "static_tf_message ?a = Some [] \<and>
        static_transforms sample_ext (camera_calibrations camera_frame) = Inr ?m' \<and> ?m' \<noteq> []"
    by (simp add: camera_frame_transforms)
  with once have mismatch: "write_tf_static sample_ext camera_frame 7 ?a = (Some AssertionError, ?a)"
    by blast
  let ?c = "convert_tfrecord2bag sample_ext default_config"
  obtain s1 where u1: "?c front_unit init_state = (None, s1)"
    using front_unit_converts by (cases "?c front_unit init_state") simp
  let ?s1 = "s1\<lparr>static_tf_message := None\<rparr>"
  have h1: "static_tf_message ?s1 = None" by simp
  obtain s2 where u2: "?c good_unit ?s1 = (None, s2)"
    using good_unit_converts_from[OF h1] by (cases "?c good_unit ?s1") simp
  from once u1 have "convert sample_ext default_config (front_unit # []) init_state
                     = convert sample_ext default_config [] ?s1"
    by blast
  then have one: "convert sample_ext default_config [front_unit] init_state = (None, ?s1)"
    by (simp add: convert_def)
  from once one u2
  have "convert sample_ext default_config ([front_unit] @ good_unit # []) init_state
        = convert sample_ext default_config [] (s2\<lparr>static_tf_message := None\<rparr>)"
    by blast
  then have both: "convert sample_ext default_config [front_unit, good_unit] init_state
                   = (None, s2\<lparr>static_tf_message := None\<rparr>)"
    by (simp add: convert_def)
  from once both
  have reset: "static_tf_message (snd (convert sample_ext default_config [front_unit, good_unit]
                                         init_state)) = None"
    by simp
  note second = static_transform_once[OF h1, of sample_ext default_config good_unit None s2]
  from second u2 obtain b2 where b2: "files s2 (bag_filename (pathname good_unit)) = Some b2"
    and first2: "\<forall>fr frs. None = (None :: py_error option) \<and> dataset good_unit = fr # frs \<longrightarrow>
                 (\<exists>m. static_transforms sample_ext (camera_calibrations fr) = Inr m
                    \<and> static_tf_message s2 = Some m
                    \<and> on_topic ''/tf_static'' b2 =
                        [(''/tf_static'', TFMessage m,
                          time_from_sec sample_ext (timestamp_micros fr))])"
    by blast
  have "dataset good_unit = sample_frame 2 [] [] # []"
    by (simp add: good_unit_def)
  with first2 obtain m2 where
    m2: "static_transforms sample_ext (camera_calibrations (sample_frame 2 [] [])) = Inr m2"
       "on_topic ''/tf_static'' b2 =
          [(''/tf_static'', TFMessage m2,
            time_from_sec sample_ext (timestamp_micros (sample_frame 2 [] [])))]"
    by blast
  from m2(1) have "m2 = []" by (simp add: sample_frame_def)
  with m2(2) have t2: "on_topic ''/tf_static'' b2 = [(''/tf_static'', TFMessage [], 2000)]"
    by (simp add: sample_timestamp)
  have n2: "bag_filename (pathname good_unit) = ''rosbag/b.bag''"
    by (simp add: good_unit_def sample_bag_filename)
  show ?thesis
    using reset unfolding both using h b t n mismatch b2 t2 n2 by auto
qed

lemma for_each_stops:
  assumes "for_each f xs a = (None, b)" and "f x b = (Some e, c)"
  shows "for_each f (xs @ x # ys) a = (Some e, c)"
  using assms by (simp add: for_each_append seq_def)

lemma convert_tfrecord2bag_closes:
  assumes "convert_tfrecord2bag ext cfg u s = (r, s1)"
  shows "files s1 (bag_filename (pathname u)) = Some (bag s1)"
  using assms
  by (cases "for_each (convert_frame ext cfg) (dataset u) (s\<lparr>bag := []\<rparr>)")
     (auto simp: convert_tfrecord2bag_def)

text \<open>
  Claim C9, as amended. A failure while converting one unit ends the whole conversion:
  \<open>convert\<close> returns with the exception of the failing unit, in the state that unit
  left, whatever units follow, so the remaining units are not attempted. Within the unit,
  the frames after the failing one are not converted, and the unit's bag is closed with
  the messages written so far. A unit converted without error is followed by the next
  one, from a state without snapshot.
\<close>

theorem failure_stops_conversion:
  "(convert_tfrecord2bag ext cfg u s = (Some e, s1) \<longrightarrow>
      convert ext cfg (u # us) s = (Some e, s1)
      \<and> files s1 (bag_filename (pathname u)) = Some (bag s1))
   \<and> (convert ext cfg us0 s = (None, s0) \<and> convert_tfrecord2bag ext cfg u s0 = (Some e, s1) \<longrightarrow>
      convert ext cfg (us0 @ u # us) s = (Some e, s1))
   \<and> (convert_tfrecord2bag ext cfg u s = (None, s1) \<longrightarrow>
      convert ext cfg (u # us) s = convert ext cfg us (s1\<lparr>static_tf_message := None\<rparr>))
   \<and> (for_each (convert_frame ext cfg) frs a = (None, b) \<and> convert_frame ext cfg fr b = (Some e, c) \<longrightarrow>
      for_each (convert_frame ext cfg) (frs @ fr # frs') a = (Some e, c))"
proof -
  have 1: "convert ext cfg (u # us) s = (Some e, s1)
           \<and> files s1 (bag_filename (pathname u)) = Some (bag s1)"
    if "convert_tfrecord2bag ext cfg u s = (Some e, s1)"
    using that convert_tfrecord2bag_closes[OF that] by (simp add: convert_def seq_def)
  have 2: "convert ext cfg (us0 @ u # us) s = (Some e, s1)"
    if "convert ext cfg us0 s = (None, s0)" "convert_tfrecord2bag ext cfg u s0 = (Some e, s1)"
    unfolding convert_def
    by (rule for_each_stops[OF that(1)[unfolded convert_def]]) (simp add: seq_def that(2))
  have 3: "convert ext cfg (u # us) s = convert ext cfg us (s1\<lparr>static_tf_message := None\<rparr>)"
    if "convert_tfrecord2bag ext cfg u s = (None, s1)"
    using that by (simp add: convert_def seq_def reset_static_tf_message_def)
  have 4: "for_each (convert_frame ext cfg) (frs @ fr # frs') a = (Some e, c)"
    if "for_each (convert_frame ext cfg) frs a = (None, b)" "convert_frame ext cfg fr b = (Some e, c)"
    using that by (rule for_each_stops)
  show ?thesis using 1 2 3 4 by blast
qed

lemma bad_unit_fails:
  "convert_tfrecord2bag sample_ext default_config bad_unit init_state
   = (Some ValueError, init_state\<lparr>files := (files init_state)(''rosbag/a.bag'' := Some [])\<rparr>)"
proof -
  have "write_odom sample_ext bad_frame t a = (Some ValueError, a)" for t a
    by (simp add: write_odom_def bad_frame_def reshape_4_4_def)
  moreover have "\<not> timestamp_micros bad_frame < 0"
    by (simp add: bad_frame_def sample_frame_def)
  ultimately have "convert_frame sample_ext default_config bad_frame a = (Some ValueError, a)" for a
    by (simp add: convert_frame_def write_frame_def seq_def)
  then show ?thesis
    by (simp add: convert_tfrecord2bag_def bad_unit_def seq_def sample_bag_filename init_state_def)
qed

lemma good_unit_converts:
  "fst (convert_tfrecord2bag sample_ext default_config good_unit init_state) = None"
proof -
  let ?s0 = "init_state\<lparr>bag := []\<rparr>"
  have "static_tf_message ?s0 = None \<or> static_tf_message ?s0 = Some []"
    by (simp add: init_state_def)
  from convert_frame_sample[OF this, of 2]
  have "fst (for_each (convert_frame sample_ext default_config) (dataset good_unit) ?s0) = None"
    by (cases "convert_frame sample_ext default_config (sample_frame 2 [] []) ?s0")
       (simp add: good_unit_def seq_def)
  then show ?thesis by (simp add: convert_tfrecord2bag_fst)
qed

text \<open>
  The claim as first stated has the units after a failing one attempted. With a unit whose
  only frame has a malformed pose followed by a unit that converts on its own, the
  conversion ends with the \<open>ValueError\<close> of the first, and no bag exists for the
  second.
\<close>

theorem later_unit_not_attempted:
  "fst (convert sample_ext default_config [bad_unit, good_unit] init_state) = Some ValueError
   \<and> files (snd (convert sample_ext default_config [bad_unit, good_unit] init_state))
        ''rosbag/b.bag'' = None
   \<and> fst (convert sample_ext default_config [good_unit] init_state) = None
   \<and> files (snd (convert sample_ext default_config [good_unit] init_state))
        ''rosbag/b.bag'' \<noteq> None"
proof -
  have a: "convert sample_ext default_config [bad_unit, good_unit] init_state
           = (Some ValueError, init_state\<lparr>files := (files init_state)(''rosbag/a.bag'' := Some [])\<rparr>)"
    by (simp add: convert_def seq_def bad_unit_fails)
  obtain s1 where g: "convert_tfrecord2bag sample_ext default_config good_unit init_state = (None, s1)"
    using good_unit_converts
    by (cases "convert_tfrecord2bag sample_ext default_config good_unit init_state") simp
  have f: "files s1 ''rosbag/b.bag'' = Some (bag s1)"
    using convert_tfrecord2bag_closes[OF g] by (simp add: good_unit_def sample_bag_filename)
  have b: "convert sample_ext default_config [good_unit] init_state
           = (None, s1\<lparr>static_tf_message := None\<rparr>)"
    by (simp add: convert_def seq_def g reset_static_tf_message_def)
  show ?thesis
    unfolding a b using f by (simp add: init_state_def)
qed

text \<open>A failing unit followed by two others.\<close>

theorem failure_stops_conversion_witness:
  "convert_tfrecord2bag sample_ext default_config bad_unit init_state
     = (Some ValueError, init_state\<lparr>files := (files init_state)(''rosbag/a.bag'' := Some [])\<rparr>)
   \<and> convert sample_ext default_config [bad_unit, good_unit, sample_unit] init_state
     = (Some ValueError, init_state\<lparr>files := (files init_state)(''rosbag/a.bag'' := Some [])\<rparr>)"
  using bad_unit_fails
    failure_stops_conversion[of sample_ext default_config bad_unit init_state ValueError
          "init_state\<lparr>files := (files init_state)(''rosbag/a.bag'' := Some [])\<rparr>"
          "[good_unit, sample_unit]"]
  by simp

end
